theory Spec2Isabelle
  imports Main
begin

section \<open>Errors, results and strings\<close>

text \<open>
  Modelled from the spec: the package \<open>errstring\<close> and the file that declares the error
  sentinels other than \<open>ErrChecksumMismatch\<close> are not among the sources. The
  specification lists the error kinds and says that a wrapped error stays detectable
  through error-cause inspection. The package's error values are sentinels
  (\<open>ErrCommandFailed\<close>, \<open>ErrUploadFailed\<close>, \<open>ErrChecksumMismatch\<close>, ...) that are wrapped
  with \<open>Wrapf\<close> or \<open>Wrap\<close>; other errors are built with \<open>fmt.Errorf("...: %w", err)\<close> or
  come from a library. An error value is a chain: \<open>Sentinel k\<close> is the bare sentinel,
  \<open>Wrapf k msg cause\<close> is \<open>k.Wrapf(msg)\<close> (with the \<open>%w\<close> cause when there is one;
  \<open>k.Wrap(err)\<close> has the empty message), \<open>Errorf msg cause\<close> is
  \<open>fmt.Errorf(msg + ": %w", cause)\<close>, and \<open>External\<close> is an error made outside the package.
  \<open>error_is e k\<close> is Go's \<open>errors.Is(e, k)\<close>.
\<close>

datatype errkind =
    ErrValidationFailed | ErrOS | ErrInvalidPath | ErrNotImplemented | ErrCantConnect
  | ErrAuthFailed | ErrNotConnected | ErrCommandFailed | ErrUploadFailed
  | ErrChecksumMismatch | ErrSudoRequired

datatype error =
    External string
  | Sentinel errkind
  | Errorf string error
  | Wrapf errkind string "error option"

fun error_is :: "error \<Rightarrow> errkind \<Rightarrow> bool" where
  "error_is (External m) k = False"
| "error_is (Sentinel k') k = (k' = k)"
| "error_is (Errorf m e) k = error_is e k"
| "error_is (Wrapf k' m None) k = (k' = k)"
| "error_is (Wrapf k' m (Some e)) k = (k' = k \<or> error_is e k)"

text \<open>A call either returns or panics (a nil dereference, an index out of range).\<close>

datatype 'a outcome = Returns 'a | Panics

fun strings_Join :: "string list \<Rightarrow> string \<Rightarrow> string" where
  "strings_Join [] sep = []"
| "strings_Join [x] sep = x"
| "strings_Join (x # y # ys) sep = x @ sep @ strings_Join (y # ys) sep"

fun strings_Contains :: "string \<Rightarrow> string \<Rightarrow> bool" where
  "strings_Contains [] sub = (sub = [])"
| "strings_Contains (c # s) sub = (take (length sub) (c # s) = sub \<or> strings_Contains s sub)"

fun nat_digits :: "nat \<Rightarrow> string" where
  "nat_digits n =
     (if n < 10 then [''0123456789'' ! n]
      else nat_digits (n div 10) @ [''0123456789'' ! (n mod 10)])"

declare nat_digits.simps [simp del]

definition strconv_Itoa :: "int \<Rightarrow> string" where
  "strconv_Itoa i = (if i < 0 then CHR ''-'' # nat_digits (nat (- i)) else nat_digits (nat i))"

text \<open>\<open>net.JoinHostPort\<close>: a host that contains a colon is put in brackets.\<close>

definition net_JoinHostPort :: "string \<Rightarrow> string \<Rightarrow> string" where
  "net_JoinHostPort host port =
     (if CHR '':'' \<in> set host then ''['' @ host @ '']:'' @ port else host @ '':'' @ port)"

section \<open>The two string libraries the sudo rewriter calls\<close>

text \<open>
  \<open>sudoSudo\<close> calls \<open>shlex.Split\<close> (github.com/google/shlex) and \<open>shellescape.Quote\<close>
  (github.com/alessio/shellescape). Both are libraries outside the repository; they are
  modelled here as those libraries define them, on the bytes of a string that is valid
  UTF-8 (the characters the tokenizer and the quoting pattern tell apart are all ASCII,
  and every byte of a longer rune is outside the pattern's class).

  The tokenizer of \<open>shlex\<close> is a state machine over the input runes. \<open>Split\<close> calls the
  lexer until the input ends, keeps the word tokens and skips the comment tokens; the
  function \<open>shlex_scan\<close> below is that loop with the tokenizer's state machine inside:
  its arguments are the tokenizer state, the type and value of the token being read,
  the words returned so far and the rest of the input.
\<close>

datatype runeTokenClass =
    unknownRuneClass | spaceRuneClass | escapingQuoteRuneClass
  | nonEscapingQuoteRuneClass | escapeRuneClass | commentRuneClass

definition ClassifyRune :: "char \<Rightarrow> runeTokenClass" where
  "ClassifyRune c =
     (if c = CHR '' '' \<or> c = CHR 0x09 \<or> c = CHR 0x0D \<or> c = CHR 0x0A then spaceRuneClass
      else if c = CHR 0x22 then escapingQuoteRuneClass
      else if c = CHR 0x27 then nonEscapingQuoteRuneClass
      else if c = CHR 0x5C then escapeRuneClass
      else if c = CHR ''#'' then commentRuneClass
      else unknownRuneClass)"

datatype lexerState =
    startState | inWordState | escapingState | escapingQuotedState
  | quotingEscapingState | quotingState | commentState

datatype TokenType = WordToken | CommentToken

definition emit_token :: "TokenType \<Rightarrow> string \<Rightarrow> string list \<Rightarrow> string list" where
  "emit_token tt v subStrings = (if tt = WordToken then subStrings @ [v] else subStrings)"

fun shlex_scan ::
  "lexerState \<Rightarrow> TokenType \<Rightarrow> string \<Rightarrow> string list \<Rightarrow> string \<Rightarrow> string list \<times> error option"
where
  "shlex_scan st tt v subStrings [] =
     (case st of
        startState \<Rightarrow> (subStrings, None)
      | inWordState \<Rightarrow> (emit_token tt v subStrings, None)
      | escapingState \<Rightarrow> (subStrings, Some (External ''EOF found after escape character''))
      | escapingQuotedState \<Rightarrow> (subStrings, Some (External ''EOF found after escape character''))
      | quotingEscapingState \<Rightarrow>
          (subStrings, Some (External ''EOF found when expecting closing quote''))
      | quotingState \<Rightarrow> (subStrings, Some (External ''EOF found when expecting closing quote''))
      | commentState \<Rightarrow> (emit_token tt v subStrings, None))"
| "shlex_scan st tt v subStrings (r # input) =
     (case st of
        startState \<Rightarrow>
          (case ClassifyRune r of
             spaceRuneClass \<Rightarrow> shlex_scan startState tt v subStrings input
           | escapingQuoteRuneClass \<Rightarrow> shlex_scan quotingEscapingState WordToken v subStrings input
           | nonEscapingQuoteRuneClass \<Rightarrow> shlex_scan quotingState WordToken v subStrings input
           | escapeRuneClass \<Rightarrow> shlex_scan escapingState WordToken v subStrings input
           | commentRuneClass \<Rightarrow> shlex_scan commentState CommentToken v subStrings input
           | unknownRuneClass \<Rightarrow> shlex_scan inWordState WordToken (v @ [r]) subStrings input)
      | inWordState \<Rightarrow>
          (case ClassifyRune r of
             spaceRuneClass \<Rightarrow> shlex_scan startState tt [] (emit_token tt v subStrings) input
           | escapingQuoteRuneClass \<Rightarrow> shlex_scan quotingEscapingState tt v subStrings input
           | nonEscapingQuoteRuneClass \<Rightarrow> shlex_scan quotingState tt v subStrings input
           | escapeRuneClass \<Rightarrow> shlex_scan escapingState tt v subStrings input
           | commentRuneClass \<Rightarrow> shlex_scan inWordState tt (v @ [r]) subStrings input
           | unknownRuneClass \<Rightarrow> shlex_scan inWordState tt (v @ [r]) subStrings input)
      | escapingState \<Rightarrow> shlex_scan inWordState tt (v @ [r]) subStrings input
      | escapingQuotedState \<Rightarrow> shlex_scan quotingEscapingState tt (v @ [r]) subStrings input
      | quotingEscapingState \<Rightarrow>
          (case ClassifyRune r of
             escapingQuoteRuneClass \<Rightarrow> shlex_scan inWordState tt v subStrings input
           | escapeRuneClass \<Rightarrow> shlex_scan escapingQuotedState tt v subStrings input
           | spaceRuneClass \<Rightarrow> shlex_scan quotingEscapingState tt (v @ [r]) subStrings input
           | nonEscapingQuoteRuneClass \<Rightarrow>
               shlex_scan quotingEscapingState tt (v @ [r]) subStrings input
           | commentRuneClass \<Rightarrow> shlex_scan quotingEscapingState tt (v @ [r]) subStrings input
           | unknownRuneClass \<Rightarrow> shlex_scan quotingEscapingState tt (v @ [r]) subStrings input)
      | quotingState \<Rightarrow>
          (case ClassifyRune r of
             nonEscapingQuoteRuneClass \<Rightarrow> shlex_scan inWordState tt v subStrings input
           | spaceRuneClass \<Rightarrow> shlex_scan quotingState tt (v @ [r]) subStrings input
           | escapingQuoteRuneClass \<Rightarrow> shlex_scan quotingState tt (v @ [r]) subStrings input
           | escapeRuneClass \<Rightarrow> shlex_scan quotingState tt (v @ [r]) subStrings input
           | commentRuneClass \<Rightarrow> shlex_scan quotingState tt (v @ [r]) subStrings input
           | unknownRuneClass \<Rightarrow> shlex_scan quotingState tt (v @ [r]) subStrings input)
      | commentState \<Rightarrow>
          (if r = CHR 0x0A then shlex_scan startState tt [] (emit_token tt v subStrings) input
           else shlex_scan commentState tt (v @ [r]) subStrings input))"

definition shlex_Split :: "string \<Rightarrow> string list \<times> error option" where
  "shlex_Split s = shlex_scan startState WordToken [] [] s"

text \<open>
  \<open>shellescape.Quote\<close>: the empty string becomes \<open>''\<close>; a string with a character
  outside the pattern's class \<open>[\w@%+=:,./-]\<close> is put in single quotes, each single quote
  of it replaced by \<open>'"'"'\<close>; any other string is returned as it is.
\<close>

definition shell_safe :: "char \<Rightarrow> bool" where
  "shell_safe c =
     (c \<in> set ''ABCDEFGHIJKLMNOPQRSTUVWXYZabcdefghijklmnopqrstuvwxyz0123456789_@%+=:,./-'')"

fun replace_quotes :: "string \<Rightarrow> string" where
  "replace_quotes [] = []"
| "replace_quotes (c # s) =
     (if c = CHR 0x27 then [CHR 0x27, CHR 0x22, CHR 0x27, CHR 0x22, CHR 0x27] @ replace_quotes s
      else c # replace_quotes s)"

definition shellescape_Quote :: "string \<Rightarrow> string" where
  "shellescape_Quote s =
     (if length s = 0 then [CHR 0x27, CHR 0x27]
      else if list_ex (\<lambda>c. \<not> shell_safe c) s then [CHR 0x27] @ replace_quotes s @ [CHR 0x27]
      else s)"

section \<open>The sudo rewriters (connection.go)\<close>

type_synonym sudofn = "string \<Rightarrow> string"

definition sudoNoop :: sudofn where
  "sudoNoop cmd = cmd"

text \<open>
  The first loop of \<open>sudoSudo\<close>: \<open>idx\<close> is one more than the index of the last token of
  the leading run of tokens that contain \<open>=\<close>.
\<close>

fun sudoSudo_idx :: "nat \<Rightarrow> nat \<Rightarrow> string list \<Rightarrow> nat" where
  "sudoSudo_idx i idx [] = idx"
| "sudoSudo_idx i idx (p # parts) =
     (if strings_Contains p ''='' then sudoSudo_idx (i + 1) (i + 1) parts else idx)"

definition sudoSudo :: sudofn where
  "sudoSudo cmd =
     (case shlex_Split cmd of
        (parts, Some err) \<Rightarrow> ''sudo -s -- '' @ cmd
      | (parts, None) \<Rightarrow>
          (let idx = sudoSudo_idx 0 0 parts in
           if idx = 0 then ''sudo -s -- '' @ cmd
           else (let quoted = map shellescape_Quote parts in
                 ''sudo -s '' @ strings_Join (take idx quoted) '' '' @ '' -- ''
                   @ strings_Join (drop idx quoted) '' '')))"

definition sudoDoas :: sudofn where
  "sudoDoas cmd = ''doas -s -- '' @ cmd"

definition sudoWindows :: sudofn where
  "sudoWindows cmd = ''runas /user:Administrator '' @ cmd"

section \<open>The local machine: environment, files, SSH configuration\<close>

text \<open>
  What the package reads from the machine it runs on: environment variables
  (\<open>os.LookupEnv\<close>), the home directory the operating system reports (\<open>os.UserHomeDir\<close>),
  \<open>os.Stat\<close> and \<open>os.ReadFile\<close>, and the SSH configuration behind the package variable
  \<open>SSHConfigGetAll\<close>. Two names of the package \<open>pkg/ssh/hostkey\<close>, whose file is not among
  the sources, are taken as given: the constant \<open>DefaultKnownHostsPath\<close> and the error (if
  any) with which \<open>KnownHostsFileCallback\<close> refuses a path.
\<close>

datatype stat_result = StatFails error | StatIsDir | StatIsFile

record local_machine =
  LookupEnv :: "string \<Rightarrow> string option"
  UserHomeDir :: "error + string"
  Stat :: "string \<Rightarrow> stat_result"
  ReadFile :: "string \<Rightarrow> error + string"
  SSHConfigGetAll :: "string \<Rightarrow> string \<Rightarrow> string list"
  DefaultKnownHostsPath :: string
  KnownHostsFileCallback_error :: "string \<Rightarrow> bool \<Rightarrow> error option"

section \<open>Path expansion and the global default key paths (ssh.go)\<close>

definition hopefullyNonexistentHost :: string where
  "hopefullyNonexistentHost = ''thisH0stDoe5not3xist''"

definition homeDir :: "local_machine \<Rightarrow> string \<times> error option" where
  "homeDir m =
     (case LookupEnv m ''HOME'' of
        Some home \<Rightarrow> (home, None)
      | None \<Rightarrow>
          (case UserHomeDir m of
             Inl err \<Rightarrow> ([], Some (Wrapf ErrOS ''failed to get user home directory'' (Some err)))
           | Inr home \<Rightarrow> (home, None)))"

text \<open>
  \<open>expandPath\<close> reads \<open>path[0]\<close> first: on the empty string the index is out of range and
  the call panics.
\<close>

definition expandPath :: "local_machine \<Rightarrow> string \<Rightarrow> (string \<times> error option) outcome" where
  "expandPath m path =
     (case path of
        [] \<Rightarrow> Panics
      | c # rest \<Rightarrow>
          if c \<noteq> CHR ''~'' then Returns (path, None)
          else if length path = 1 then Returns (homeDir m)
          else if hd rest \<noteq> CHR ''/'' then
            Returns ([], Some (Wrapf ErrNotImplemented ''~user/ style paths not supported'' None))
          else (case homeDir m of
                  (home, Some err) \<Rightarrow> Returns ([], Some err)
                | (home, None) \<Rightarrow> Returns (home @ rest, None)))"

definition expandAndValidatePath ::
  "local_machine \<Rightarrow> string \<Rightarrow> (string \<times> error option) outcome"
where
  "expandAndValidatePath m path =
     (if length path = 0 then Returns ([], Some (Wrapf ErrInvalidPath ''path is empty'' None))
      else
        (case expandPath m path of
           Panics \<Rightarrow> Panics
         | Returns (p, Some err) \<Rightarrow> Returns ([], Some err)
         | Returns (p, None) \<Rightarrow>
             (case Stat m p of
                StatFails err \<Rightarrow> Returns ([], Some (Wrapf ErrInvalidPath [] (Some err)))
              | StatIsDir \<Rightarrow> Returns ([], Some (Wrapf ErrInvalidPath (p @ '' is a directory'') None))
              | StatIsFile \<Rightarrow> Returns (p, None))))"

text \<open>
  \<open>initGlobalDefaults\<close> appends to the package variable \<open>dummyhostKeyPaths\<close>, which is
  passed in and returned. The loop body is the source's: the branch taken is
  \<open>err != nil\<close>, and what it appends is the first result of \<open>expandAndValidatePath\<close>.
\<close>

fun initGlobalDefaults_loop ::
  "local_machine \<Rightarrow> string list \<Rightarrow> string list \<Rightarrow> string list outcome"
where
  "initGlobalDefaults_loop m dummyhostKeyPaths [] = Returns dummyhostKeyPaths"
| "initGlobalDefaults_loop m dummyhostKeyPaths (keyPath # rest) =
     (case expandAndValidatePath m keyPath of
        Panics \<Rightarrow> Panics
      | Returns (expanded, err) \<Rightarrow>
          if err \<noteq> None then initGlobalDefaults_loop m (dummyhostKeyPaths @ [expanded]) rest
          else initGlobalDefaults_loop m dummyhostKeyPaths rest)"

definition initGlobalDefaults :: "local_machine \<Rightarrow> string list \<Rightarrow> string list outcome" where
  "initGlobalDefaults m dummyhostKeyPaths =
     initGlobalDefaults_loop m dummyhostKeyPaths
       (SSHConfigGetAll m hopefullyNonexistentHost ''IdentityFile'')"

text \<open>
  The loop of \<open>SSH.SetDefaults\<close> over the candidate key paths, the sibling of the loop
  above: a path that fails is skipped, a path that validates is appended.
\<close>

fun SetDefaults_loop :: "local_machine \<Rightarrow> string list \<Rightarrow> string list \<Rightarrow> string list outcome" where
  "SetDefaults_loop m keyPaths [] = Returns keyPaths"
| "SetDefaults_loop m keyPaths (p # paths) =
     (case expandAndValidatePath m p of
        Panics \<Rightarrow> Panics
      | Returns (expanded, err) \<Rightarrow>
          if err \<noteq> None then SetDefaults_loop m keyPaths paths
          else SetDefaults_loop m (keyPaths @ [expanded]) paths)"

section \<open>The SSH transport: host-key callback (ssh.go)\<close>

text \<open>
  The fields of \<open>SSH\<close> that the functions below read or write. \<open>client\<close> is the
  \<open>*ssh.Client\<close>: \<open>None\<close> is nil, and a client is what its server does when a session is
  opened on it: whether the PTY request is granted and, for the command line started,
  whether the start and the write to stdin succeed, the lines the scanner reads from
  stderr (and the scanner's error), and the exit status the server reports (\<open>None\<close> when
  it reports none).
\<close>

record ssh_run =
  Start_error :: "error option"
  WriteString_error :: "error option"
  Stderr_lines :: "string list"
  Stderr_scan_error :: "error option"
  exit_status :: "int option"

record ssh_session =
  RequestPty_error :: "error option"
  run :: "string \<Rightarrow> ssh_run"

record ssh_client =
  ServerVersion :: string
  NewSession :: "error + ssh_session"

record SSH =
  Address :: string
  User :: string
  Port :: int
  HostKey :: string
  isWindows :: bool
  knowOs :: bool
  client :: "ssh_client option"

definition getConfigAll :: "local_machine \<Rightarrow> SSH \<Rightarrow> string \<Rightarrow> string list" where
  "getConfigAll m c key =
     (let dst = net_JoinHostPort (Address c) (strconv_Itoa (Port c));
          val = SSHConfigGetAll m dst key
      in if length val > 0 then val else SSHConfigGetAll m (Address c) key)"

text \<open>The host-key callbacks of \<open>pkg/ssh/hostkey\<close>, as values.\<close>

datatype HostKeyCallback =
    StaticKeyCallback string
  | InsecureIgnoreHostKeyCallback
  | KnownHostsFileCallback string bool

definition knownhostsCallback ::
  "local_machine \<Rightarrow> string \<Rightarrow> bool \<Rightarrow> error + HostKeyCallback"
where
  "knownhostsCallback m path permissive =
     (case KnownHostsFileCallback_error m path permissive of
        Some err \<Rightarrow> Inl (Wrapf ErrCantConnect ''create host key validator'' (Some err))
      | None \<Rightarrow> Inr (KnownHostsFileCallback path permissive))"

text \<open>
  Modelled from the spec: \<open>hostkey.KnownHostsPathFromEnv\<close> (package \<open>pkg/ssh/hostkey\<close>) is
  not among the sources. The specification says that the environment variable
  \<open>SSH_KNOWN_HOSTS\<close> overrides the known-hosts file location and that its empty value
  disables verification; the function is the lookup of that variable (value and
  presence).
\<close>

definition KnownHostsPathFromEnv :: "local_machine \<Rightarrow> string option" where
  "KnownHostsPathFromEnv m = LookupEnv m ''SSH_KNOWN_HOSTS''"

text \<open>
  The loop over the files named by \<open>UserKnownHostsFile\<close>: the first file that
  \<open>expandPath\<close> expands without error is taken and the loop stops; \<open>khPath\<close> stays empty
  when there is none.
\<close>

fun khPath_loop :: "local_machine \<Rightarrow> string list \<Rightarrow> string outcome" where
  "khPath_loop m [] = Returns []"
| "khPath_loop m (f # files) =
     (case expandPath m f of
        Panics \<Rightarrow> Panics
      | Returns (expanded, None) \<Rightarrow> Returns expanded
      | Returns (expanded, Some err) \<Rightarrow> khPath_loop m files)"

definition hostkeyCallback :: "local_machine \<Rightarrow> SSH \<Rightarrow> (error + HostKeyCallback) outcome" where
  "hostkeyCallback m c =
     (if HostKey c \<noteq> [] then Returns (Inr (StaticKeyCallback (HostKey c)))
      else
        (let strict = getConfigAll m c ''StrictHostkeyChecking'';
             permissive = (length strict > 0 \<and> hd strict = ''no'')
         in case KnownHostsPathFromEnv m of
              Some path \<Rightarrow>
                if path = [] then Returns (Inr InsecureIgnoreHostKeyCallback)
                else Returns (knownhostsCallback m path permissive)
            | None \<Rightarrow>
                (let kfs = getConfigAll m c ''UserKnownHostsFile'' in
                 case (case shlex_Split (strings_Join kfs '' '') of
                         (files, None) \<Rightarrow> khPath_loop m files
                       | (files, Some err) \<Rightarrow> Returns [])
                 of
                   Panics \<Rightarrow> Panics
                 | Returns khPath \<Rightarrow>
                     if khPath \<noteq> [] then Returns (knownhostsCallback m khPath permissive)
                     else
                       (case expandPath m (DefaultKnownHostsPath m) of
                          Panics \<Rightarrow> Panics
                        | Returns (defaultPath, Some err) \<Rightarrow> Returns (Inl err)
                        | Returns (defaultPath, None) \<Rightarrow>
                            Returns (knownhostsCallback m defaultPath permissive)))))"

section \<open>The SSH transport: Exec (ssh.go)\<close>

text \<open>
  The fields of \<open>exec.Options\<close> that \<open>Exec\<close> reads (the package \<open>exec\<close> is not among the
  sources): the stdin payload, whether a writer is set, \<open>AllowWinStderr\<close>, and the
  method \<open>Command\<close> that rewrites the command line and may fail.
\<close>

record exec_Options =
  Stdin :: string
  Writer :: bool
  AllowWinStderr :: bool
  Command :: "string \<Rightarrow> string \<times> error option"

text \<open>
  \<open>session.Wait\<close> of \<open>golang.org/x/crypto/ssh\<close>: nil when the command exits with status
  zero, an exit error when the status is not zero, an exit-missing error when the server
  sent no status.
\<close>

definition session_Wait :: "ssh_run \<Rightarrow> error option" where
  "session_Wait r =
     (case exit_status r of
        None \<Rightarrow> Some (External ''wait: remote command exited without exit status or exit signal'')
      | Some n \<Rightarrow>
          if n = 0 then None
          else Some (External (''Process exited with status '' @ strconv_Itoa n)))"

definition ptyWidth :: int where
  "ptyWidth = 80"

definition ptyHeight :: int where
  "ptyHeight = 40"

datatype terminal_mode = ECHO

text \<open>
  The calls \<open>Exec\<close> makes on its session, in order, with their arguments. The arguments
  of \<open>RequestPty\<close> are in the order of its declaration in \<open>golang.org/x/crypto/ssh\<close>,
  \<open>RequestPty(term string, h, w int, termmodes TerminalModes)\<close>: the terminal type, the
  height in rows, the width in columns, the modes. \<open>Exec\<close> below
  returns its error together with these calls. Logging and the delivery of the output
  lines to the collector are left out: they change neither. The two pumps run
  concurrently with \<open>session.Wait\<close>, and \<open>Exec\<close> reads \<open>gotErrors\<close> after both have ended
  (\<open>wg.Wait\<close>), so its value is whether the stderr scanner read a line or failed.
\<close>

datatype session_call =
    RequestPty string int int "(terminal_mode \<times> nat) list"
  | Start string
  | WriteString string
  | CloseStdin
  | Wait
  | Close

definition SSH_Exec ::
  "SSH \<Rightarrow> string \<Rightarrow> exec_Options \<Rightarrow> (error option \<times> session_call list) outcome"
where
  "SSH_Exec c cmd0 execOpts =
     (case SSH.client c of
        None \<Rightarrow> Panics
      | Some cl \<Rightarrow>
     (case NewSession cl of
        Inl err \<Rightarrow> Returns (Some (Errorf ''ssh new session'' err), [])
      | Inr session \<Rightarrow>
     (case Command execOpts cmd0 of
        (cmd, Some err) \<Rightarrow> Returns (Some (Errorf ''build command'' err), [Close])
      | (cmd, None) \<Rightarrow>
     (let pty = (length (Stdin execOpts) = 0 \<and> knowOs c \<and> \<not> isWindows c);
          calls1 = (if pty then [RequestPty ''xterm'' ptyWidth ptyHeight [(ECHO, 0)]] else [])
      in
      case (if pty then RequestPty_error session else None) of
        Some err \<Rightarrow> Returns (Some (Errorf ''request pty'' err), calls1 @ [Close])
      | None \<Rightarrow>
     (let r = run session cmd;
          calls2 = calls1 @ [Start cmd]
      in
      case Start_error r of
        Some err \<Rightarrow> Returns (Some (Errorf ''ssh session start'' err), calls2 @ [Close])
      | None \<Rightarrow>
     (let calls3 = calls2 @ (if length (Stdin execOpts) > 0 then [WriteString (Stdin execOpts)] else [])
      in
      case (if length (Stdin execOpts) > 0 then WriteString_error r else None) of
        Some err \<Rightarrow> Returns (Some (Errorf ''write stdin'' err), calls3 @ [Close])
      | None \<Rightarrow>
     (let gotErrors = (length (Stderr_lines r) > 0 \<or> Stderr_scan_error r \<noteq> None);
          calls4 = calls3 @ [CloseStdin, Wait, Close]
      in
      case session_Wait r of
        Some err \<Rightarrow> Returns (Some (Errorf ''ssh session wait'' err), calls4)
      | None \<Rightarrow>
          if knowOs c \<and> isWindows c \<and> (\<not> AllowWinStderr execOpts \<and> gotErrors)
          then Returns (Some (Wrapf ErrCommandFailed ''data in stderr'' None), calls4)
          else Returns (None, calls4))))))))"

definition SSH_IsConnected :: "SSH \<Rightarrow> bool" where
  "SSH_IsConnected c = (SSH.client c \<noteq> None)"

text \<open>
  Modelled from the spec: \<open>exec.Build\<close> (package \<open>exec\<close>) is not among the sources. The
  specification lists the per-call modifiers as optional; with no option given there is
  nothing on stdin, no writer, no tolerance of stderr, and the command is not rewritten.
\<close>

definition exec_Build_none :: exec_Options where
  "exec_Build_none =
     \<lparr>Stdin = [], Writer = False, AllowWinStderr = False, Command = (\<lambda>cmd. (cmd, None))\<rparr>"

definition SSH_IsWindows :: "SSH \<Rightarrow> (bool \<times> SSH) outcome" where
  "SSH_IsWindows c =
     (case SSH.client c of
        None \<Rightarrow> Returns (isWindows c, c)
      | Some cl \<Rightarrow>
          if knowOs c then Returns (isWindows c, c)
          else if strings_Contains (ServerVersion cl) ''Windows''
          then Returns (True, c\<lparr>isWindows := True, knowOs := True\<rparr>)
          else
            (case SSH_Exec c ''cmd.exe /c exit 0'' exec_Build_none of
               Panics \<Rightarrow> Panics
             | Returns (err, calls) \<Rightarrow>
                 Returns (err = None, c\<lparr>isWindows := (err = None), knowOs := True\<rparr>)))"

section \<open>The WinRM transport (winrm.go)\<close>

text \<open>
  The library \<open>github.com/masterzen/winrm\<close> as \<open>Connect\<close> and \<open>Exec\<close> use it. An endpoint
  and the parameters are plain values. A client is the endpoint, credentials and
  parameters it was built from, together with what its server does: the result of the
  probe command, of creating a shell and, for a command line, of executing it (the
  exit code, the lines the scanner reads from stderr, the scanner's error).
\<close>

record winrm_Endpoint =
  Host :: string
  Port :: int
  HTTPS :: bool
  Insecure :: bool
  TLSServerName :: string
  CACert :: string
  Cert :: string
  Key :: string
  Timeout_seconds :: nat

datatype Transporter = ClientNTLM | ClientAuthRequest

text \<open>
  \<open>params.Dial\<close> is either left as it is or set to the method value
  \<open>c.Bastion.client.Dial\<close>, which binds the bastion's client (nil or not) without
  calling it.
\<close>

datatype Dialer = default_Dial | client_Dial "ssh_client option"

record winrm_Parameters =
  Dial :: Dialer
  TransportDecorator :: "Transporter option"

text \<open>
  \<open>winrm.DefaultParameters\<close> is a package variable of the library that holds a pointer to
  one \<open>Parameters\<close> value, made by \<open>NewParameters\<close> when the process starts, with no dialer
  and no transport decorator set. That first value is \<open>initial_DefaultParameters\<close>; the
  current value of the variable is an argument and a result of \<open>WinRM_Connect\<close> below.
\<close>

definition initial_DefaultParameters :: winrm_Parameters where
  "initial_DefaultParameters = \<lparr>Dial = default_Dial, TransportDecorator = None\<rparr>"

record winrm_Command =
  ExecuteWithContext_error :: "error option"
  ExitCode :: int
  Command_Stderr_lines :: "string list"
  Command_Stderr_scan_error :: "error option"

record winrm_server =
  NewClientWithParameters_error :: "error option"
  RunWithContext_error :: "error option"
  CreateShell_error :: "error option"
  execute :: "string \<Rightarrow> winrm_Command"

record winrm_Client =
  endpoint :: winrm_Endpoint
  user :: string
  password :: string
  params :: winrm_Parameters
  server :: winrm_server

record WinRM =
  Address :: string
  User :: string
  Port :: int
  Password :: string
  UseHTTPS :: bool
  Insecure :: bool
  UseNTLM :: bool
  CACertPath :: string
  CertPath :: string
  KeyPath :: string
  TLSServerName :: string
  Bastion :: "SSH option"
  caCert :: string
  key :: string
  cert :: string
  client :: "winrm_Client option"

definition loadCertificates :: "local_machine \<Rightarrow> WinRM \<Rightarrow> error option \<times> WinRM" where
  "loadCertificates m c0 =
     (let c1 = c0\<lparr>caCert := []\<rparr> in
      case (if CACertPath c1 \<noteq> [] then ReadFile m (CACertPath c1) else Inr (caCert c1)) of
        Inl err \<Rightarrow> (Some (Wrapf ErrInvalidPath ''load ca cert'' (Some err)), c1)
      | Inr ca \<Rightarrow>
     (let c2 = c1\<lparr>caCert := ca, cert := []\<rparr> in
      case (if CertPath c2 \<noteq> [] then ReadFile m (CertPath c2) else Inr (cert c2)) of
        Inl err \<Rightarrow> (Some (Wrapf ErrInvalidPath ''load cert'' (Some err)), c2)
      | Inr crt \<Rightarrow>
     (let c3 = c2\<lparr>cert := crt, key := []\<rparr> in
      case (if KeyPath c3 \<noteq> [] then ReadFile m (KeyPath c3) else Inr (key c3)) of
        Inl err \<Rightarrow> (Some (Wrapf ErrInvalidPath ''load key'' (Some err)), c3)
      | Inr k \<Rightarrow> (None, c3\<lparr>key := k\<rparr>))))"

text \<open>
  The assignments of \<open>Connect\<close> to \<open>params.TransportDecorator\<close>: two \<open>if\<close> statements, one
  after the other, the second not an \<open>else\<close> of the first.
\<close>

definition Connect_decorators :: "WinRM \<Rightarrow> winrm_Parameters \<Rightarrow> winrm_Parameters" where
  "Connect_decorators c params0 =
     (let params1 = (if UseNTLM c then params0\<lparr>TransportDecorator := Some ClientNTLM\<rparr>
                     else params0);
          params2 = (if UseHTTPS c \<and> length (cert c) > 0
                     then params1\<lparr>TransportDecorator := Some ClientAuthRequest\<rparr>
                     else params1)
      in params2)"

text \<open>
  \<open>Connect\<close>. The connection of the bastion is \<open>SSH.Connect\<close>, whose bring-up (identity
  files, authentication, dialling) no statement below is about: its result on the
  bastion is the argument \<open>bastion_Connect\<close>. The server behind the endpoint is the
  argument \<open>srv\<close>.

  \<open>params := winrm.DefaultParameters\<close> copies the pointer, not the value: the assignments
  to \<open>params.Dial\<close> and \<open>params.TransportDecorator\<close> write the library's shared value, and
  the next \<open>Connect\<close> of the process starts from what they left. The argument
  \<open>DefaultParameters\<close> is that shared value before the call and the third result is the
  shared value after it. \<open>NewClientWithParameters\<close> copies the parameters into the client
  it builds.
\<close>

definition WinRM_Connect ::
  "local_machine \<Rightarrow> (SSH \<Rightarrow> error option \<times> SSH) \<Rightarrow> winrm_server \<Rightarrow> winrm_Parameters
     \<Rightarrow> WinRM \<Rightarrow> error option \<times> WinRM \<times> winrm_Parameters"
where
  "WinRM_Connect m bastion_Connect srv DefaultParameters c0 =
     (case loadCertificates m c0 of
        (Some err, c1) \<Rightarrow>
          (Some (Wrapf ErrCantConnect ''failed to load certificates'' (Some err)), c1,
           DefaultParameters)
      | (None, c1) \<Rightarrow>
     (let endpoint0 =
            \<lparr>Host = WinRM.Address c1, winrm_Endpoint.Port = WinRM.Port c1,
             HTTPS = UseHTTPS c1, winrm_Endpoint.Insecure = WinRM.Insecure c1,
             winrm_Endpoint.TLSServerName = WinRM.TLSServerName c1,
             CACert = [], Cert = [], Key = [], Timeout_seconds = 60\<rparr>;
          endpoint1 = (if length (caCert c1) > 0 then endpoint0\<lparr>CACert := caCert c1\<rparr>
                       else endpoint0);
          endpoint2 = (if length (cert c1) > 0 then endpoint1\<lparr>Cert := cert c1\<rparr>
                       else endpoint1);
          endpoint3 = (if length (key c1) > 0 then endpoint2\<lparr>Key := key c1\<rparr>
                       else endpoint2)
      in
      case (case Bastion c1 of
              None \<Rightarrow> Inr (DefaultParameters, c1)
            | Some b \<Rightarrow>
                (case bastion_Connect b of
                   (Some err, b') \<Rightarrow>
                     Inl (Errorf ''bastion connect'' err, c1\<lparr>Bastion := Some b'\<rparr>)
                 | (None, b') \<Rightarrow>
                     Inr (DefaultParameters\<lparr>Dial := client_Dial (SSH.client b')\<rparr>,
                          c1\<lparr>Bastion := Some b'\<rparr>)))
      of
        Inl (err, c2) \<Rightarrow> (Some err, c2, DefaultParameters)
      | Inr (params0, c2) \<Rightarrow>
     (let params1 = Connect_decorators c2 params0 in
      case NewClientWithParameters_error srv of
        Some err \<Rightarrow> (Some (Errorf ''create winrm client'' err), c2, params1)
      | None \<Rightarrow>
     (let cl = \<lparr>endpoint = endpoint3, user = WinRM.User c2, password = Password c2,
                params = params1, server = srv\<rparr>
      in
      case RunWithContext_error srv of
        Some err \<Rightarrow> (Some (Errorf ''test connection'' err), c2, params1)
      | None \<Rightarrow> (None, c2\<lparr>WinRM.client := Some cl\<rparr>, params1)))))"

definition WinRM_Disconnect :: "WinRM \<Rightarrow> WinRM" where
  "WinRM_Disconnect c = c\<lparr>WinRM.client := None\<rparr>"

definition WinRM_IsConnected :: "WinRM \<Rightarrow> bool" where
  "WinRM_IsConnected c = (WinRM.client c \<noteq> None)"

definition WinRM_IsWindows :: "WinRM \<Rightarrow> bool" where
  "WinRM_IsWindows c = True"

text \<open>\<open>Command.Wait\<close>, the waiter of \<open>ExecStreams\<close>, reads the exit code of its command.\<close>

definition Command_Wait :: "winrm_Command \<Rightarrow> error option" where
  "Command_Wait proc =
     (if ExitCode proc \<noteq> 0
      then Some (Wrapf ErrCommandFailed (''exit code '' @ strconv_Itoa (ExitCode proc)) None)
      else None)"

definition WinRM_ExecStreams :: "WinRM \<Rightarrow> string \<Rightarrow> exec_Options \<Rightarrow> error + winrm_Command" where
  "WinRM_ExecStreams c cmd execOpts =
     (case WinRM.client c of
        None \<Rightarrow> Inl (Sentinel ErrNotConnected)
      | Some cl \<Rightarrow>
     (case Command execOpts cmd of
        (command, Some err) \<Rightarrow> Inl (Wrapf ErrCommandFailed ''build command'' (Some err))
      | (command, None) \<Rightarrow>
     (case CreateShell_error (server cl) of
        Some err \<Rightarrow> Inl (Wrapf ErrCantConnect ''create shell'' (Some err))
      | None \<Rightarrow>
     (let proc = execute (server cl) command in
      case ExecuteWithContext_error proc of
        Some err \<Rightarrow> Inl (Wrapf ErrCommandFailed ''execute command'' (Some err))
      | None \<Rightarrow> Inr proc))))"

definition WinRM_Exec :: "WinRM \<Rightarrow> string \<Rightarrow> exec_Options \<Rightarrow> error option outcome" where
  "WinRM_Exec c cmd execOpts =
     (case WinRM.client c of
        None \<Rightarrow> Panics
      | Some cl \<Rightarrow>
     (case CreateShell_error (server cl) of
        Some err \<Rightarrow> Returns (Some (Errorf ''create shell'' err))
      | None \<Rightarrow>
     (let command = execute (server cl) cmd in
      case ExecuteWithContext_error command of
        Some err \<Rightarrow> Returns (Some (Errorf ''execute command'' err))
      | None \<Rightarrow>
     (let gotErrors = (length (Command_Stderr_lines command) > 0
                        \<or> Command_Stderr_scan_error command \<noteq> None);
          ec = ExitCode command
      in
      if ec > 0
      then Returns (Some (Wrapf ErrCommandFailed (''non-zero exit code '' @ strconv_Itoa ec) None))
      else if \<not> AllowWinStderr execOpts \<and> gotErrors
      then Returns (Some (Wrapf ErrCommandFailed ''received data in stderr'' None))
      else Returns None))))"

section \<open>The connection (connection.go)\<close>

text \<open>
  The \<open>client\<close> interface has three implementations; \<open>Localhost\<close> is not among the
  sources. The remote filesystem (\<open>FS\<close>, \<open>File\<close>) is an interface whose implementations
  are not among the sources either: a file is what \<open>CopyFromN\<close> returns, the error or the
  bytes it passed on to the hasher, and a filesystem is what \<open>OpenFile\<close> and \<open>Sha256\<close>
  return.
\<close>

record OSVersion =
  ID :: string

record Localhost =
  Enabled :: bool

datatype client = client_WinRM WinRM | client_Localhost Localhost | client_SSH SSH

record local_file =
  file_Stat :: "error + nat \<times> nat"
  contents :: string

record File =
  CopyFromN :: "local_file \<Rightarrow> nat \<Rightarrow> error + string"

record FS =
  OpenFile :: "string \<Rightarrow> nat \<Rightarrow> error + File"
  Sha256 :: "string \<Rightarrow> error + string"

text \<open>
  What \<open>Connection\<close> calls outside the three source files, as one record: the result of
  \<open>SSH.Connect\<close> (see \<open>WinRM_Connect\<close>), the WinRM server, the value the library's shared
  \<open>winrm.DefaultParameters\<close> has when the connection's client connects, the methods of
  \<open>Localhost\<close>,
  \<open>defaults.Set\<close> (its error on the connection, its effect on the transport),
  \<open>GetOSVersion\<close>, the order in which this run's \<open>range\<close> visits the map \<open>sudoChecks\<close>, the
  two filesystem constructors, \<open>os.Open\<close>, and the hex digest of SHA-256.
\<close>

record collaborators =
  SSH_Connect :: "SSH \<Rightarrow> error option \<times> SSH"
  winrm_srv :: winrm_server
  winrm_DefaultParameters :: winrm_Parameters
  Localhost_Connect :: "error option"
  Localhost_IsConnected :: bool
  Localhost_IsWindows :: bool
  Localhost_Exec :: "string \<Rightarrow> error option"
  defaults_Set_error :: "error option"
  defaults_Set_client :: "client \<Rightarrow> client"
  GetOSVersion :: "error + OSVersion"
  sudoChecks_range :: "(string \<times> sudofn) list"
  newWindowsFsys :: FS
  newUnixFsys :: FS
  os_Open :: "string \<Rightarrow> error + local_file"
  sha256_hex :: "string \<Rightarrow> string"

text \<open>
  \<open>Connection\<close>: the three configuration slots, the detected OS, the bound client, the
  chosen sudo function and the two cached filesystems. In the source the bound client
  is a pointer to the transport of one of the slots; here it is held by value, as the
  calls on it have left it, and the slots keep the configuration. Nothing below reads
  a slot after the client is bound.
\<close>

record Connection =
  WinRM :: "WinRM option"
  SSH :: "SSH option"
  Localhost :: "Localhost option"
  OSVersion :: "OSVersion option"
  client :: "client option"
  sudofunc :: "sudofn option"
  fsys :: "FS option"
  sudofsys :: "FS option"

definition configuredClient :: "Connection \<Rightarrow> client option" where
  "configuredClient c =
     (case Connection.WinRM c of
        Some w \<Rightarrow> Some (client_WinRM w)
      | None \<Rightarrow>
          (case Connection.Localhost c of
             Some l \<Rightarrow> Some (client_Localhost l)
           | None \<Rightarrow>
               (case Connection.SSH c of
                  Some s \<Rightarrow> Some (client_SSH s)
                | None \<Rightarrow> None)))"

definition defaultClient :: client where
  "defaultClient = client_Localhost \<lparr>Enabled = True\<rparr>"

definition Connection_SetDefaults :: "collaborators \<Rightarrow> Connection \<Rightarrow> Connection" where
  "Connection_SetDefaults col c =
     (if Connection.client c = None
      then (let cl = (case configuredClient c of Some x \<Rightarrow> x | None \<Rightarrow> defaultClient)
            in c\<lparr>Connection.client := Some (defaults_Set_client col cl)\<rparr>)
      else c)"

definition defaults_Set :: "collaborators \<Rightarrow> Connection \<Rightarrow> error option \<times> Connection" where
  "defaults_Set col c =
     (case defaults_Set_error col of
        Some err \<Rightarrow> (Some err, c)
      | None \<Rightarrow> (None, Connection_SetDefaults col c))"

subsection \<open>The methods of the bound client\<close>

text \<open>
  A connection calls \<open>Connect\<close> of its client once. For a WinRM client the call starts
  from the shared parameters given by the collaborators; the value it leaves them with
  is the third result of \<open>WinRM_Connect\<close> and is not part of the connection.
\<close>

definition client_Connect ::
  "local_machine \<Rightarrow> collaborators \<Rightarrow> client \<Rightarrow> error option \<times> client"
where
  "client_Connect m col cl =
     (case cl of
        client_WinRM w \<Rightarrow>
          (case WinRM_Connect m (SSH_Connect col) (winrm_srv col)
                  (winrm_DefaultParameters col) w of
             (err, w', DefaultParameters') \<Rightarrow> (err, client_WinRM w'))
      | client_Localhost l \<Rightarrow> (Localhost_Connect col, client_Localhost l)
      | client_SSH s \<Rightarrow> (case SSH_Connect col s of (err, s') \<Rightarrow> (err, client_SSH s')))"

definition client_IsConnected :: "collaborators \<Rightarrow> client \<Rightarrow> bool" where
  "client_IsConnected col cl =
     (case cl of
        client_WinRM w \<Rightarrow> WinRM_IsConnected w
      | client_Localhost l \<Rightarrow> Localhost_IsConnected col
      | client_SSH s \<Rightarrow> SSH_IsConnected s)"

definition client_IsWindows :: "collaborators \<Rightarrow> client \<Rightarrow> (bool \<times> client) outcome" where
  "client_IsWindows col cl =
     (case cl of
        client_WinRM w \<Rightarrow> Returns (WinRM_IsWindows w, cl)
      | client_Localhost l \<Rightarrow> Returns (Localhost_IsWindows col, cl)
      | client_SSH s \<Rightarrow>
          (case SSH_IsWindows s of
             Panics \<Rightarrow> Panics
           | Returns (b, s') \<Rightarrow> Returns (b, client_SSH s')))"

definition client_Exec ::
  "collaborators \<Rightarrow> client \<Rightarrow> string \<Rightarrow> exec_Options \<Rightarrow> error option outcome"
where
  "client_Exec col cl cmd execOpts =
     (case cl of
        client_WinRM w \<Rightarrow> WinRM_Exec w cmd execOpts
      | client_Localhost l \<Rightarrow> Returns (Localhost_Exec col cmd)
      | client_SSH s \<Rightarrow>
          (case SSH_Exec s cmd execOpts of
             Panics \<Rightarrow> Panics
           | Returns (err, calls) \<Rightarrow> Returns err))"

subsection \<open>IsConnected, Exec, the sudo probes, Connect\<close>

definition IsConnected :: "collaborators \<Rightarrow> Connection \<Rightarrow> bool" where
  "IsConnected col c =
     (case Connection.client c of
        None \<Rightarrow> False
      | Some cl \<Rightarrow> client_IsConnected col cl)"

definition checkConnected :: "collaborators \<Rightarrow> Connection \<Rightarrow> error option" where
  "checkConnected col c = (if \<not> IsConnected col c then Some (Sentinel ErrNotConnected) else None)"

definition Exec :: "collaborators \<Rightarrow> Connection \<Rightarrow> string \<Rightarrow> exec_Options \<Rightarrow> error option outcome" where
  "Exec col c cmd execOpts =
     (case checkConnected col c of
        Some err \<Rightarrow> Returns (Some err)
      | None \<Rightarrow>
          (case Connection.client c of
             None \<Rightarrow> Panics
           | Some cl \<Rightarrow>
               (case client_Exec col cl cmd execOpts of
                  Panics \<Rightarrow> Panics
                | Returns (Some err) \<Rightarrow> Returns (Some (Wrapf ErrCommandFailed ''client exec'' (Some err)))
                | Returns None \<Rightarrow> Returns None)))"

definition sudoCheckWindows :: string where
  "sudoCheckWindows = ''whoami | findstr /i \"administrator\"''"

definition sudoChecks :: "(string \<times> sudofn) list" where
  "sudoChecks =
     [(''[ \"$(id -u)\" = 0 ]'', sudoNoop),
      (''sudo -n true'', sudoSudo),
      (''doas -n true'', sudoDoas)]"

fun configureSudo_loop ::
  "collaborators \<Rightarrow> Connection \<Rightarrow> (string \<times> sudofn) list \<Rightarrow> Connection outcome"
where
  "configureSudo_loop col c [] = Returns c"
| "configureSudo_loop col c ((check, fn) # rest) =
     (case Exec col c check exec_Build_none of
        Panics \<Rightarrow> Panics
      | Returns None \<Rightarrow> Returns (c\<lparr>sudofunc := Some fn\<rparr>)
      | Returns (Some err) \<Rightarrow> configureSudo_loop col c rest)"

definition configureSudo :: "collaborators \<Rightarrow> Connection \<Rightarrow> Connection outcome" where
  "configureSudo col c =
     (case OSVersion c of
        None \<Rightarrow> Panics
      | Some v \<Rightarrow>
          if ID v = ''windows'' then
            (case Exec col c sudoCheckWindows exec_Build_none of
               Panics \<Rightarrow> Panics
             | Returns None \<Rightarrow> Returns (c\<lparr>sudofunc := Some sudoWindows\<rparr>)
             | Returns (Some err) \<Rightarrow> Returns c)
          else configureSudo_loop col c (sudoChecks_range col))"

definition Connect ::
  "local_machine \<Rightarrow> collaborators \<Rightarrow> Connection \<Rightarrow> (error option \<times> Connection) outcome"
where
  "Connect m col c0 =
     (case (if Connection.client c0 = None then defaults_Set col c0 else (None, c0)) of
        (Some err, c1) \<Rightarrow> Returns (Some (Wrapf ErrValidationFailed ''set defaults'' (Some err)), c1)
      | (None, c1) \<Rightarrow>
     (case Connection.client c1 of
        None \<Rightarrow> Panics
      | Some cl \<Rightarrow>
     (case client_Connect m col cl of
        (Some err, cl') \<Rightarrow>
          Returns (Some (Wrapf ErrNotConnected ''client connect'' (Some err)),
                   c1\<lparr>Connection.client := None\<rparr>)
      | (None, cl') \<Rightarrow>
     (let c2 = c1\<lparr>Connection.client := Some cl'\<rparr> in
      case (case OSVersion c2 of
              None \<Rightarrow>
                (case GetOSVersion col of
                   Inl err \<Rightarrow> Inl err
                 | Inr v \<Rightarrow> Inr (c2\<lparr>OSVersion := Some v\<rparr>))
            | Some v \<Rightarrow> Inr c2)
      of
        Inl err \<Rightarrow> Returns (Some err, c2)
      | Inr c3 \<Rightarrow>
          (case configureSudo col c3 of
             Panics \<Rightarrow> Panics
           | Returns c4 \<Rightarrow> Returns (None, c4))))))"

definition Disconnect :: "Connection \<Rightarrow> Connection" where
  "Disconnect c = c\<lparr>Connection.client := None\<rparr>"

definition Sudo :: "Connection \<Rightarrow> string \<Rightarrow> string \<times> error option" where
  "Sudo c cmd =
     (case sudofunc c of
        None \<Rightarrow> ([], Some (Wrapf ErrSudoRequired
            ''user is not an administrator and passwordless access elevation has not been configured''
            None))
      | Some fn \<Rightarrow> (fn cmd, None))"

subsection \<open>Upload\<close>

definition IsWindows :: "collaborators \<Rightarrow> Connection \<Rightarrow> (bool \<times> Connection) outcome" where
  "IsWindows col c =
     (case (if \<not> IsConnected col c then configuredClient c else None) of
        Some cl \<Rightarrow>
          (case client_IsWindows col cl of
             Panics \<Rightarrow> Panics
           | Returns (b, cl') \<Rightarrow> Returns (b, c))
      | None \<Rightarrow>
          (case Connection.client c of
             None \<Rightarrow> Panics
           | Some cl \<Rightarrow>
               (case client_IsWindows col cl of
                  Panics \<Rightarrow> Panics
                | Returns (b, cl') \<Rightarrow> Returns (b, c\<lparr>Connection.client := Some cl'\<rparr>))))"

definition Fsys :: "collaborators \<Rightarrow> Connection \<Rightarrow> (FS \<times> Connection) outcome" where
  "Fsys col c =
     (case fsys c of
        Some f \<Rightarrow> Returns (f, c)
      | None \<Rightarrow>
          (case IsWindows col c of
             Panics \<Rightarrow> Panics
           | Returns (b, c1) \<Rightarrow>
               (let f = (if b then newWindowsFsys col else newUnixFsys col)
                in Returns (f, c1\<lparr>fsys := Some f\<rparr>))))"

definition Upload ::
  "collaborators \<Rightarrow> Connection \<Rightarrow> string \<Rightarrow> string \<Rightarrow> (error option \<times> Connection) outcome"
where
  "Upload col c src dst =
     (case checkConnected col c of
        Some err \<Rightarrow> Returns (Some err, c)
      | None \<Rightarrow>
     (case os_Open col src of
        Inl err \<Rightarrow> Returns (Some (Wrapf ErrInvalidPath [] (Some err)), c)
      | Inr local \<Rightarrow>
     (case file_Stat local of
        Inl err \<Rightarrow>
          Returns (Some (Wrapf ErrInvalidPath (''stat local file '' @ src) (Some err)), c)
      | Inr (mode, sz) \<Rightarrow>
     (case Fsys col c of
        Panics \<Rightarrow> Panics
      | Returns (fs, c1) \<Rightarrow>
     (case OpenFile fs dst mode of
        Inl err \<Rightarrow>
          Returns (Some (Wrapf ErrInvalidPath ''open remote file for writing'' (Some err)), c1)
      | Inr remote \<Rightarrow>
     (case CopyFromN remote local sz of
        Inl err \<Rightarrow>
          Returns (Some (Wrapf ErrUploadFailed ''copy file to remote host'' (Some err)), c1)
      | Inr shasum \<Rightarrow>
     (case Sha256 fs dst of
        Inl err \<Rightarrow>
          Returns (Some (Wrapf ErrUploadFailed (''validate checksum of '' @ dst) (Some err)), c1)
      | Inr remoteSum \<Rightarrow>
          if remoteSum \<noteq> sha256_hex col shasum
          then Returns (Some (Wrapf ErrUploadFailed ''checksum mismatch'' None), c1)
          else Returns (None, c1))))))))"

section \<open>Observations used in the statements\<close>

text \<open>The PTY requests among the calls made on a session.\<close>

fun is_RequestPty :: "session_call \<Rightarrow> bool" where
  "is_RequestPty (RequestPty term h w modes) = True"
| "is_RequestPty other = False"

definition pty_requests :: "session_call list \<Rightarrow> session_call list" where
  "pty_requests calls = filter is_RequestPty calls"

text \<open>
  The size a PTY request asks for: the rows are the second argument of \<open>RequestPty\<close>
  (\<open>h\<close>) and the columns the third (\<open>w\<close>).
\<close>

fun requested_rows :: "session_call \<Rightarrow> int option" where
  "requested_rows (RequestPty term h w modes) = Some h"
| "requested_rows other = None"

fun requested_columns :: "session_call \<Rightarrow> int option" where
  "requested_columns (RequestPty term h w modes) = Some w"
| "requested_columns other = None"

text \<open>The error a call returned, without the rest of its result.\<close>

fun returned_error :: "(error option \<times> 'a) outcome \<Rightarrow> error option outcome" where
  "returned_error Panics = Panics"
| "returned_error (Returns (err, x)) = Returns err"

text \<open>The transport decorator of the client a WinRM host is connected with.\<close>

definition client_transport :: "WinRM \<Rightarrow> Transporter option option" where
  "client_transport c =
     (case WinRM.client c of
        None \<Rightarrow> None
      | Some cl \<Rightarrow> Some (TransportDecorator (params cl)))"

text \<open>A path validates when \<open>expandAndValidatePath\<close> returns it without error.\<close>

definition validates :: "local_machine \<Rightarrow> string \<Rightarrow> bool" where
  "validates m p = (case expandAndValidatePath m p of Returns (q, None) \<Rightarrow> True | _ \<Rightarrow> False)"

text \<open>Permissive mode: the first \<open>StrictHostkeyChecking\<close> value of the configuration is \<open>no\<close>.\<close>

definition permissive_mode :: "local_machine \<Rightarrow> SSH \<Rightarrow> bool" where
  "permissive_mode m c =
     (case getConfigAll m c ''StrictHostkeyChecking'' of
        [] \<Rightarrow> False
      | s # rest \<Rightarrow> s = ''no'')"

section \<open>Example inputs\<close>

text \<open>
  A machine with \<open>HOME=/home/u\<close>, one key file \<open>/home/u/.ssh/id_rsa\<close>, a client
  certificate \<open>/etc/winrm/client.pem\<close>, and an SSH configuration that names two identity
  files for every host; and the same machine with a configuration that gives
  \<open>UserKnownHostsFile\<close> the value \<open>""\<close>.
\<close>

definition example_machine :: local_machine where
  "example_machine =
     \<lparr>LookupEnv = (\<lambda>k. if k = ''HOME'' then Some ''/home/u'' else None),
      UserHomeDir = Inr ''/home/u'',
      Stat = (\<lambda>p. if p = ''/home/u/.ssh/id_rsa'' then StatIsFile
                    else StatFails (External ''no such file or directory'')),
      ReadFile = (\<lambda>p. if p = ''/etc/winrm/client.pem'' then Inr ''CERTIFICATE''
                        else Inl (External ''no such file or directory'')),
      SSHConfigGetAll = (\<lambda>host k. if k = ''IdentityFile''
                                   then [''~/.ssh/id_rsa'', ''~/.ssh/id_dsa''] else []),
      DefaultKnownHostsPath = ''~/.ssh/known_hosts'',
      KnownHostsFileCallback_error = (\<lambda>path permissive. None)\<rparr>"

definition example_machine_empty_entry :: local_machine where
  "example_machine_empty_entry =
     example_machine\<lparr>SSHConfigGetAll :=
       (\<lambda>host k. if k = ''UserKnownHostsFile'' then [[CHR 0x22, CHR 0x22]] else [])\<rparr>"

definition example_SSH :: SSH where
  "example_SSH =
     \<lparr>SSH.Address = ''10.0.0.1'', SSH.User = ''root'', SSH.Port = 22, HostKey = [],
      isWindows = False, knowOs = False, SSH.client = None\<rparr>"

text \<open>
  Machines for the host-key rules: \<open>SSH_KNOWN_HOSTS\<close> set to the empty string, set to a
  path, a configuration whose \<open>UserKnownHostsFile\<close> names \<open>~bob/known_hosts\<close> (not
  expandable) and then \<open>~/.ssh/kh\<close>, and a configuration whose \<open>UserKnownHostsFile\<close> has
  an opening quote that is never closed.
\<close>

definition example_machine_env_empty :: local_machine where
  "example_machine_env_empty =
     example_machine\<lparr>LookupEnv :=
       (\<lambda>k. if k = ''SSH_KNOWN_HOSTS'' then Some [] else LookupEnv example_machine k)\<rparr>"

definition example_machine_env_path :: local_machine where
  "example_machine_env_path =
     example_machine\<lparr>LookupEnv :=
       (\<lambda>k. if k = ''SSH_KNOWN_HOSTS'' then Some ''/tmp/kh'' else LookupEnv example_machine k)\<rparr>"

definition example_machine_config :: local_machine where
  "example_machine_config =
     example_machine\<lparr>SSHConfigGetAll :=
       (\<lambda>host k. if k = ''UserKnownHostsFile'' then [''~bob/known_hosts ~/.ssh/kh'']
                   else if k = ''StrictHostkeyChecking'' then [''no'']
                   else [])\<rparr>"

definition example_machine_bad_quote :: local_machine where
  "example_machine_bad_quote =
     example_machine\<lparr>SSHConfigGetAll :=
       (\<lambda>host k. if k = ''UserKnownHostsFile'' then [CHR 0x22 # ''/tmp/kh''] else [])\<rparr>"

text \<open>
  An SSH server that grants the PTY and runs every command with exit status 0 and one
  line on stderr; a host known to run Windows that is connected to it; and a host known
  not to run Windows.
\<close>

definition example_run :: ssh_run where
  "example_run =
     \<lparr>Start_error = None, WriteString_error = None, Stderr_lines = [''warning''],
      Stderr_scan_error = None, exit_status = Some 0\<rparr>"

definition example_ssh_client :: ssh_client where
  "example_ssh_client =
     \<lparr>ServerVersion = ''SSH-2.0-OpenSSH_8.9'',
      NewSession = Inr \<lparr>RequestPty_error = None, run = (\<lambda>cmd. example_run)\<rparr>\<rparr>"

definition example_SSH_windows :: SSH where
  "example_SSH_windows =
     example_SSH\<lparr>isWindows := True, knowOs := True, SSH.client := Some example_ssh_client\<rparr>"

definition example_SSH_linux :: SSH where
  "example_SSH_linux =
     example_SSH\<lparr>isWindows := False, knowOs := True, SSH.client := Some example_ssh_client\<rparr>"

definition example_Options_allow :: exec_Options where
  "example_Options_allow = exec_Build_none\<lparr>AllowWinStderr := True\<rparr>"

text \<open>
  A WinRM server that accepts the client and the probe and runs every command with
  exit code \<open>-1\<close> and nothing on stderr; a WinRM host with NTLM, HTTPS and a client
  certificate configured; a host with none of the three; and the first host as \<open>Connect\<close>
  leaves it on that server when the shared parameters are the initial ones.
\<close>

definition example_winrm_server :: winrm_server where
  "example_winrm_server =
     \<lparr>NewClientWithParameters_error = None, RunWithContext_error = None,
      CreateShell_error = None,
      execute = (\<lambda>cmd. \<lparr>ExecuteWithContext_error = None, ExitCode = - 1,
                          Command_Stderr_lines = [], Command_Stderr_scan_error = None\<rparr>)\<rparr>"

definition example_WinRM :: WinRM where
  "example_WinRM =
     \<lparr>WinRM.Address = ''10.0.0.2'', WinRM.User = ''Administrator'', WinRM.Port = 5986,
      Password = ''secret'', UseHTTPS = True, WinRM.Insecure = False, UseNTLM = True,
      CACertPath = [], CertPath = ''/etc/winrm/client.pem'', KeyPath = [],
      WinRM.TLSServerName = [], Bastion = None, caCert = [], key = [], cert = [],
      WinRM.client = None\<rparr>"

definition example_WinRM_plain :: WinRM where
  "example_WinRM_plain = example_WinRM\<lparr>UseHTTPS := False, UseNTLM := False, CertPath := []\<rparr>"

definition example_WinRM_connected :: WinRM where
  "example_WinRM_connected =
     example_WinRM\<lparr>cert := ''CERTIFICATE'', WinRM.client :=
       Some \<lparr>endpoint = \<lparr>Host = ''10.0.0.2'', winrm_Endpoint.Port = 5986, HTTPS = True,
                          winrm_Endpoint.Insecure = False, winrm_Endpoint.TLSServerName = [],
                          CACert = [], Cert = ''CERTIFICATE'', Key = [], Timeout_seconds = 60\<rparr>,
             user = ''Administrator'', password = ''secret'',
             params = \<lparr>Dial = default_Dial, TransportDecorator = Some ClientAuthRequest\<rparr>,
             server = example_winrm_server\<rparr>\<rparr>"

text \<open>
  The collaborators of a connection: the OS probe fails; the remote filesystem takes
  every byte of the local file and then reports the digest of the empty file; the local
  file \<open>/tmp/f\<close> holds \<open>hello\<close>. \<open>sha256_hex\<close> is given on the two inputs used, with their
  SHA-256 digests.
\<close>

definition example_FS :: FS where
  "example_FS =
     \<lparr>OpenFile = (\<lambda>name perm. Inr \<lparr>CopyFromN = (\<lambda>local n. Inr (take n (contents local)))\<rparr>),
      Sha256 = (\<lambda>name.
        Inr ''e3b0c44298fc1c149afbf4c8996fb92427ae41e4649b934ca495991b7852b855'')\<rparr>"

definition example_collaborators :: collaborators where
  "example_collaborators =
     \<lparr>SSH_Connect = (\<lambda>s. (None, s\<lparr>SSH.client := Some example_ssh_client\<rparr>)),
      winrm_srv = example_winrm_server,
      winrm_DefaultParameters = initial_DefaultParameters,
      Localhost_Connect = None,
      Localhost_IsConnected = True,
      Localhost_IsWindows = False,
      Localhost_Exec = (\<lambda>cmd. None),
      defaults_Set_error = None,
      defaults_Set_client = (\<lambda>cl. cl),
      GetOSVersion = Inl (External ''unable to determine host os''),
      sudoChecks_range = sudoChecks,
      newWindowsFsys = example_FS,
      newUnixFsys = example_FS,
      os_Open = (\<lambda>name. if name = ''/tmp/f''
                          then Inr \<lparr>file_Stat = Inr (420, 5), contents = ''hello''\<rparr>
                          else Inl (External ''no such file or directory'')),
      sha256_hex = (\<lambda>bytes.
        if bytes = ''hello''
        then ''2cf24dba5fb0a30e26e83b2ac5b9e29e1b161e5c1fa7425e73043362938b9824''
        else if bytes = []
        then ''e3b0c44298fc1c149afbf4c8996fb92427ae41e4649b934ca495991b7852b855''
        else [])\<rparr>"

definition example_Connection :: Connection where
  "example_Connection =
     \<lparr>WinRM = Some example_WinRM, SSH = None, Localhost = None, OSVersion = None,
      Connection.client = None, sudofunc = None, fsys = None, sudofsys = None\<rparr>"

definition example_Connection_connected :: Connection where
  "example_Connection_connected =
     \<lparr>WinRM = None, SSH = Some example_SSH, Localhost = None,
      OSVersion = Some \<lparr>ID = ''ubuntu''\<rparr>,
      Connection.client = Some (client_SSH example_SSH_linux), sudofunc = None,
      fsys = None, sudofsys = None\<rparr>"

section \<open>Properties of the sudo rewriter\<close>

lemma strings_Contains_char: "strings_Contains s [c] = (c \<in> set s)"
  by (induction s) auto

lemma sudoSudo_idx_takeWhile:
  "sudoSudo_idx i idx parts =
     (if takeWhile (\<lambda>p. CHR ''='' \<in> set p) parts = [] then idx
      else i + length (takeWhile (\<lambda>p. CHR ''='' \<in> set p) parts))"
  by (induction parts arbitrary: i idx) (auto simp: strings_Contains_char)

lemma shellescape_Quote_safe:
  "s \<noteq> [] \<Longrightarrow> list_all shell_safe s \<Longrightarrow> shellescape_Quote s = s"
  by (auto simp: shellescape_Quote_def list_ex_iff list_all_iff)

lemma sudoSudo_prefix_form:
  assumes "shlex_Split cmd = (parts, None)"
    and "parts \<noteq> []"
    and "CHR ''='' \<in> set (hd parts)"
  shows "sudoSudo cmd =
           ''sudo -s ''
           @ strings_Join (map shellescape_Quote (takeWhile (\<lambda>p. CHR ''='' \<in> set p) parts)) '' ''
           @ '' -- ''
           @ strings_Join (map shellescape_Quote (dropWhile (\<lambda>p. CHR ''='' \<in> set p) parts)) '' ''"
proof -
  let ?P = "\<lambda>p. CHR ''='' \<in> set p"
  from assms(2,3) have ne: "takeWhile ?P parts \<noteq> []"
    by (cases parts) auto
  then have idx: "sudoSudo_idx 0 0 parts = length (takeWhile ?P parts)"
    by (simp add: sudoSudo_idx_takeWhile)
  have pos: "length (takeWhile ?P parts) \<noteq> 0"
    using ne by simp
  show ?thesis
    using assms(1) pos
    by (simp add: sudoSudo_def idx Let_def take_map drop_map
        takeWhile_eq_take [symmetric] dropWhile_eq_drop [symmetric])
qed

lemma shlex_Split_example:
  "shlex_Split ''A=1 B=2 cmd arg'' = ([''A=1'', ''B=2'', ''cmd'', ''arg''], None)"
  by (simp add: shlex_Split_def ClassifyRune_def emit_token_def)

text \<open>
  C1, as the code has it. For a command that \<open>shlex.Split\<close> splits without error and
  whose first token contains \<open>=\<close>, \<open>sudoSudo\<close> returns \<open>sudo -s <vars> -- <cmd>\<close>: the
  leading tokens that contain \<open>=\<close>, then \<open>--\<close>, then the remaining tokens, each token
  passed through \<open>shellescape.Quote\<close> and the tokens of each part joined by one space.
  \<open>shellescape.Quote\<close> returns a non-empty token of safe characters unchanged, so the
  tokens of \<open>A=1 B=2 cmd arg\<close> come back without quotes:
  \<open>sudoSudo("A=1 B=2 cmd arg")\<close> is \<open>sudo -s A=1 B=2 -- cmd arg\<close>.
\<close>

theorem sudoSudo_env_prefix:
  "(shlex_Split cmd = (parts, None) \<and> parts \<noteq> [] \<and> CHR ''='' \<in> set (hd parts) \<longrightarrow>
      sudoSudo cmd =
        ''sudo -s ''
        @ strings_Join (map shellescape_Quote (takeWhile (\<lambda>p. CHR ''='' \<in> set p) parts)) '' ''
        @ '' -- ''
        @ strings_Join (map shellescape_Quote (dropWhile (\<lambda>p. CHR ''='' \<in> set p) parts)) '' '')
   \<and> (s \<noteq> [] \<and> list_all shell_safe s \<longrightarrow> shellescape_Quote s = s)
   \<and> sudoSudo ''A=1 B=2 cmd arg'' = ''sudo -s A=1 B=2 -- cmd arg''"
proof (intro conjI impI)
  assume "shlex_Split cmd = (parts, None) \<and> parts \<noteq> [] \<and> CHR ''='' \<in> set (hd parts)"
  then show "sudoSudo cmd =
        ''sudo -s ''
        @ strings_Join (map shellescape_Quote (takeWhile (\<lambda>p. CHR ''='' \<in> set p) parts)) '' ''
        @ '' -- ''
        @ strings_Join (map shellescape_Quote (dropWhile (\<lambda>p. CHR ''='' \<in> set p) parts)) '' ''"
    using sudoSudo_prefix_form by blast
next
  assume "s \<noteq> [] \<and> list_all shell_safe s"
  then show "shellescape_Quote s = s"
    by (simp add: shellescape_Quote_safe)
next
  show "sudoSudo ''A=1 B=2 cmd arg'' = ''sudo -s A=1 B=2 -- cmd arg''"
    using sudoSudo_prefix_form [OF shlex_Split_example]
    by (simp add: shellescape_Quote_def shell_safe_def)
qed

theorem sudoSudo_env_prefix_witness:
  "shlex_Split ''FOO=1 BAR=2 ls /root'' = ([''FOO=1'', ''BAR=2'', ''ls'', ''/root''], None)
   \<and> list_all shell_safe ''/root''
   \<and> shellescape_Quote ''/root'' = ''/root''
   \<and> sudoSudo ''FOO=1 BAR=2 ls /root'' = ''sudo -s FOO=1 BAR=2 -- ls /root''"
proof -
  have split: "shlex_Split ''FOO=1 BAR=2 ls /root'' = ([''FOO=1'', ''BAR=2'', ''ls'', ''/root''], None)"
    by (simp add: shlex_Split_def ClassifyRune_def emit_token_def)
  have safe: "list_all shell_safe ''/root''"
    by (simp add: shell_safe_def)
  have q: "shellescape_Quote s = s" if "s \<noteq> []" and "list_all shell_safe s" for s
    using that
      sudoSudo_env_prefix [of "''FOO=1 BAR=2 ls /root''"
        "[''FOO=1'', ''BAR=2'', ''ls'', ''/root'']" s]
    by blast
  have q1: "shellescape_Quote ''FOO=1'' = ''FOO=1''" by (rule q) (simp_all add: shell_safe_def)
  have q2: "shellescape_Quote ''BAR=2'' = ''BAR=2''" by (rule q) (simp_all add: shell_safe_def)
  have q3: "shellescape_Quote ''ls'' = ''ls''" by (rule q) (simp_all add: shell_safe_def)
  have q4: "shellescape_Quote ''/root'' = ''/root''" by (rule q) (simp_all add: shell_safe_def)
  have "sudoSudo ''FOO=1 BAR=2 ls /root'' = ''sudo -s FOO=1 BAR=2 -- ls /root''"
    using split
      sudoSudo_env_prefix [of "''FOO=1 BAR=2 ls /root''"
        "[''FOO=1'', ''BAR=2'', ''ls'', ''/root'']" "''/root''"]
    by (simp add: q1 q2 q3 q4)
  with split safe q4 show ?thesis by simp
qed

text \<open>
  The statement of C1 as written (every token in single quotes after \<open>--\<close>) does not
  hold at its own example.
\<close>

theorem sudoSudo_quotes_every_token_counterexample:
  "sudoSudo ''A=1 B=2 cmd arg'' \<noteq> ''sudo -s A=1 B=2 -- 'cmd' 'arg'' @ [CHR 0x27]"
  by (simp add: sudoSudo_def shlex_Split_def ClassifyRune_def emit_token_def
      shellescape_Quote_def shell_safe_def)

section \<open>Properties of path expansion\<close>

lemma expandPath_nonempty: "path \<noteq> [] \<Longrightarrow> expandPath m path \<noteq> Panics"
  by (cases path) (auto simp: expandPath_def split: prod.splits option.splits)

lemma homeDir_error_kind: "homeDir m = (h, Some e) \<Longrightarrow> h = [] \<and> error_is e ErrOS"
  by (auto simp: homeDir_def split: option.splits sum.splits)

lemma expandPath_result:
  assumes "path \<noteq> []"
  shows "(\<exists>p. expandPath m path = Returns (p, None))
         \<or> (\<exists>e. expandPath m path = Returns ([], Some e)
                \<and> (error_is e ErrNotImplemented \<or> error_is e ErrOS))"
proof (cases path)
  case Nil
  with assms show ?thesis by simp
next
  case (Cons c rest)
  obtain h eo where hd: "homeDir m = (h, eo)" by (cases "homeDir m")
  show ?thesis
  proof (cases eo)
    case None
    with Cons hd show ?thesis by (auto simp: expandPath_def)
  next
    case (Some e)
    with hd have "h = [] \<and> error_is e ErrOS" by (simp add: homeDir_error_kind)
    with Cons hd Some show ?thesis by (auto simp: expandPath_def)
  qed
qed

lemma expandAndValidatePath_total: "expandAndValidatePath m path \<noteq> Panics"
proof (cases "path = []")
  case True
  then show ?thesis by (simp add: expandAndValidatePath_def)
next
  case False
  then have "expandPath m path \<noteq> Panics" by (rule expandPath_nonempty)
  then show ?thesis
    by (auto simp: expandAndValidatePath_def split: outcome.splits prod.splits option.splits stat_result.splits)
qed

lemma khPath_loop_total: "\<forall>f\<in>set files. f \<noteq> [] \<Longrightarrow> khPath_loop m files \<noteq> Panics"
proof (induction files)
  case Nil
  then show ?case by simp
next
  case (Cons f files)
  then have "expandPath m f \<noteq> Panics" by (simp add: expandPath_nonempty)
  with Cons show ?case
    by (auto split: outcome.splits prod.splits option.splits)
qed

lemma hostkeyCallback_empty_entry:
  assumes "HostKey c = []" and "KnownHostsPathFromEnv m = None"
    and "shlex_Split (strings_Join (getConfigAll m c ''UserKnownHostsFile'') '' '') = ([] # files, None)"
  shows "hostkeyCallback m c = Panics"
  using assms by (simp add: hostkeyCallback_def Let_def expandPath_def)

lemma hostkeyCallback_total:
  assumes "shlex_Split (strings_Join (getConfigAll m c ''UserKnownHostsFile'') '' '') = (files, err)"
    and "\<forall>f\<in>set files. f \<noteq> []" and "DefaultKnownHostsPath m \<noteq> []"
  shows "hostkeyCallback m c \<noteq> Panics"
proof -
  have d: "expandPath m (DefaultKnownHostsPath m) \<noteq> Panics"
    using assms(3) by (rule expandPath_nonempty)
  have k: "khPath_loop m files \<noteq> Panics"
    using assms(2) by (rule khPath_loop_total)
  show ?thesis
    using assms(1) d k
    by (auto simp: hostkeyCallback_def Let_def split: option.splits outcome.splits prod.splits)
qed

text \<open>
  C10. \<open>expandPath\<close> panics on the empty string and on no other input: for a non-empty
  path it returns an expanded path, or an empty path with a \<open>not implemented\<close> or an
  \<open>OS\<close> error. \<open>expandAndValidatePath\<close> checks for the empty path first (it returns
  the \<open>invalid path\<close> error) and never panics. \<open>hostkeyCallback\<close> calls \<open>expandPath\<close>
  without that check: when the first file name split from \<open>UserKnownHostsFile\<close> is empty
  it panics, and it does not panic when none of the file names and not the default
  path is empty.
\<close>

theorem expandPath_partial_on_empty:
  "expandPath m [] = Panics
   \<and> (path \<noteq> [] \<longrightarrow>
        (\<exists>p. expandPath m path = Returns (p, None))
        \<or> (\<exists>e. expandPath m path = Returns ([], Some e)
               \<and> (error_is e ErrNotImplemented \<or> error_is e ErrOS)))
   \<and> expandAndValidatePath m [] = Returns ([], Some (Wrapf ErrInvalidPath ''path is empty'' None))
   \<and> expandAndValidatePath m path \<noteq> Panics
   \<and> (HostKey c = [] \<and> KnownHostsPathFromEnv m = None
        \<and> shlex_Split (strings_Join (getConfigAll m c ''UserKnownHostsFile'') '' '')
            = ([] # files, None)
        \<longrightarrow> hostkeyCallback m c = Panics)
   \<and> (shlex_Split (strings_Join (getConfigAll m c ''UserKnownHostsFile'') '' '') = (names, err)
        \<and> (\<forall>f\<in>set names. f \<noteq> []) \<and> DefaultKnownHostsPath m \<noteq> []
        \<longrightarrow> hostkeyCallback m c \<noteq> Panics)"
proof (intro conjI impI)
  show "expandPath m [] = Panics"
    by (simp add: expandPath_def)
next
  assume "path \<noteq> []"
  then show "(\<exists>p. expandPath m path = Returns (p, None))
        \<or> (\<exists>e. expandPath m path = Returns ([], Some e)
               \<and> (error_is e ErrNotImplemented \<or> error_is e ErrOS))"
    by (rule expandPath_result)
next
  show "expandAndValidatePath m [] = Returns ([], Some (Wrapf ErrInvalidPath ''path is empty'' None))"
    by (simp add: expandAndValidatePath_def)
next
  show "expandAndValidatePath m path \<noteq> Panics"
    by (rule expandAndValidatePath_total)
next
  assume "HostKey c = [] \<and> KnownHostsPathFromEnv m = None
        \<and> shlex_Split (strings_Join (getConfigAll m c ''UserKnownHostsFile'') '' '')
            = ([] # files, None)"
  then show "hostkeyCallback m c = Panics"
    by (simp add: hostkeyCallback_empty_entry)
next
  assume "shlex_Split (strings_Join (getConfigAll m c ''UserKnownHostsFile'') '' '') = (names, err)
        \<and> (\<forall>f\<in>set names. f \<noteq> []) \<and> DefaultKnownHostsPath m \<noteq> []"
  then show "hostkeyCallback m c \<noteq> Panics"
    using hostkeyCallback_total by blast
qed

theorem expandPath_partial_on_empty_witness:
  "HostKey example_SSH = []
   \<and> KnownHostsPathFromEnv example_machine_empty_entry = None
   \<and> shlex_Split (strings_Join
         (getConfigAll example_machine_empty_entry example_SSH ''UserKnownHostsFile'') '' '')
       = ([[]], None)
   \<and> hostkeyCallback example_machine_empty_entry example_SSH = Panics
   \<and> shlex_Split (strings_Join
         (getConfigAll example_machine example_SSH ''UserKnownHostsFile'') '' '')
       = ([], None)
   \<and> DefaultKnownHostsPath example_machine \<noteq> []
   \<and> hostkeyCallback example_machine example_SSH \<noteq> Panics
   \<and> ''~bob/x'' \<noteq> []
   \<and> expandPath example_machine ''~bob/x''
       = Returns ([], Some (Wrapf ErrNotImplemented ''~user/ style paths not supported'' None))"
proof -
  have h1: "HostKey example_SSH = []"
    by (simp add: example_SSH_def)
  have h2: "KnownHostsPathFromEnv example_machine_empty_entry = None"
    by (simp add: KnownHostsPathFromEnv_def example_machine_empty_entry_def example_machine_def)
  have h3: "shlex_Split (strings_Join
         (getConfigAll example_machine_empty_entry example_SSH ''UserKnownHostsFile'') '' '')
       = ([[]], None)"
    by (simp add: getConfigAll_def example_machine_empty_entry_def example_machine_def
        shlex_Split_def ClassifyRune_def emit_token_def)
  have p1: "hostkeyCallback example_machine_empty_entry example_SSH = Panics"
    using h1 h2 h3
      expandPath_partial_on_empty [of example_machine_empty_entry "''~bob/x''" example_SSH "[]"]
    by blast
  have h4: "shlex_Split (strings_Join
         (getConfigAll example_machine example_SSH ''UserKnownHostsFile'') '' '')
       = ([], None)"
    by (simp add: getConfigAll_def example_machine_def shlex_Split_def)
  have h5: "DefaultKnownHostsPath example_machine \<noteq> []"
    by (simp add: example_machine_def)
  have p2: "hostkeyCallback example_machine example_SSH \<noteq> Panics"
    using h4 h5
      expandPath_partial_on_empty [of example_machine "''~bob/x''" example_SSH _ "[]" None]
    by simp
  have h6: "''~bob/x'' \<noteq> []"
    by simp
  have p3: "expandPath example_machine ''~bob/x''
       = Returns ([], Some (Wrapf ErrNotImplemented ''~user/ style paths not supported'' None))"
    by (simp add: expandPath_def)
  from h1 h2 h3 p1 h4 h5 p2 h6 p3 show ?thesis
    by blast
qed

lemma expandAndValidatePath_cases:
  "(\<exists>q. expandAndValidatePath m p = Returns (q, None))
   \<or> (\<exists>e. expandAndValidatePath m p = Returns ([], Some e))"
proof (cases "p = []")
  case True
  then show ?thesis by (simp add: expandAndValidatePath_def)
next
  case False
  then have "expandPath m p \<noteq> Panics" by (rule expandPath_nonempty)
  then show ?thesis
    by (auto simp: expandAndValidatePath_def
        split: outcome.splits prod.splits option.splits stat_result.splits)
qed

lemma initGlobalDefaults_loop_closed_form:
  "initGlobalDefaults_loop m acc ps =
     Returns (acc @ replicate (length (filter (\<lambda>p. \<not> validates m p) ps)) [])"
proof (induction ps arbitrary: acc)
  case Nil
  then show ?case by simp
next
  case (Cons p ps)
  from expandAndValidatePath_cases [of m p] show ?case
  proof
    assume "\<exists>q. expandAndValidatePath m p = Returns (q, None)"
    then show ?thesis using Cons by (auto simp: validates_def)
  next
    assume "\<exists>e. expandAndValidatePath m p = Returns ([], Some e)"
    then show ?thesis using Cons by (auto simp: validates_def replicate_append_same)
  qed
qed

text \<open>
  C9. The loop of \<open>initGlobalDefaults\<close> appends when \<open>expandAndValidatePath\<close> fails, and
  what it appends then is the empty string: starting from nothing, the global defaults
  end as one empty string for every configured path that does not validate, and hold no
  path that validates. On the example machine the configuration names \<open>~/.ssh/id_rsa\<close>,
  which exists, and \<open>~/.ssh/id_dsa\<close>, which does not: the global defaults end as one
  empty string, while the loop of \<open>SetDefaults\<close> over the same two paths keeps exactly
  the existing key.
\<close>

theorem initGlobalDefaults_appends_on_failure:
  "initGlobalDefaults m [] =
     Returns (replicate
       (length (filter (\<lambda>p. \<not> validates m p)
          (SSHConfigGetAll m hopefullyNonexistentHost ''IdentityFile''))) [])
   \<and> validates example_machine ''~/.ssh/id_rsa''
   \<and> initGlobalDefaults example_machine [] = Returns [[]]
   \<and> SetDefaults_loop example_machine []
        (SSHConfigGetAll example_machine hopefullyNonexistentHost ''IdentityFile'')
      = Returns [''/home/u/.ssh/id_rsa'']"
proof (intro conjI)
  show "initGlobalDefaults m [] =
     Returns (replicate
       (length (filter (\<lambda>p. \<not> validates m p)
          (SSHConfigGetAll m hopefullyNonexistentHost ''IdentityFile''))) [])"
    by (simp add: initGlobalDefaults_def initGlobalDefaults_loop_closed_form)
next
  show "validates example_machine ''~/.ssh/id_rsa''"
    by (simp add: validates_def expandAndValidatePath_def expandPath_def homeDir_def
        example_machine_def)
next
  show "initGlobalDefaults example_machine [] = Returns [[]]"
    by (simp add: initGlobalDefaults_def expandAndValidatePath_def expandPath_def homeDir_def
        example_machine_def)
next
  show "SetDefaults_loop example_machine []
        (SSHConfigGetAll example_machine hopefullyNonexistentHost ''IdentityFile'')
      = Returns [''/home/u/.ssh/id_rsa'']"
    by (simp add: expandAndValidatePath_def expandPath_def homeDir_def example_machine_def)
qed

section \<open>Properties of the SSH exec engine\<close>

lemma pty_requests_append [simp]: "pty_requests (xs @ ys) = pty_requests xs @ pty_requests ys"
  by (simp add: pty_requests_def)

lemma pty_requests_simps [simp]:
  "pty_requests [] = []"
  "pty_requests (RequestPty t h w ms # xs) = RequestPty t h w ms # pty_requests xs"
  "pty_requests (Start cmd # xs) = pty_requests xs"
  "pty_requests (WriteString s # xs) = pty_requests xs"
  "pty_requests (CloseStdin # xs) = pty_requests xs"
  "pty_requests (Wait # xs) = pty_requests xs"
  "pty_requests (Close # xs) = pty_requests xs"
  by (simp_all add: pty_requests_def)

lemma SSH_Exec_pty_reached:
  assumes "SSH.client c = Some cl" and "NewSession cl = Inr session"
    and "Command execOpts cmd0 = (cmd, None)"
    and "SSH_Exec c cmd0 execOpts = Returns (err, calls)"
  shows "pty_requests calls =
           (if knowOs c \<and> \<not> isWindows c \<and> Stdin execOpts = []
            then [RequestPty ''xterm'' 80 40 [(ECHO, 0)]] else [])"
  using assms
  by (auto simp: SSH_Exec_def Let_def ptyWidth_def ptyHeight_def
      split: option.splits if_splits)

lemma SSH_Exec_pty_only_if:
  assumes "SSH_Exec c cmd0 execOpts = Returns (err, calls)" and "pty_requests calls \<noteq> []"
  shows "knowOs c \<and> \<not> isWindows c \<and> Stdin execOpts = []
         \<and> pty_requests calls = [RequestPty ''xterm'' 80 40 [(ECHO, 0)]]"
  using assms
  by (auto simp: SSH_Exec_def Let_def ptyWidth_def ptyHeight_def
      split: option.splits sum.splits prod.splits if_splits)

lemma SSH_Exec_stderr_rule:
  assumes "SSH.client c = Some cl" and "NewSession cl = Inr session"
    and "Command execOpts cmd0 = (cmd, None)"
    and "knowOs c \<and> \<not> isWindows c \<and> Stdin execOpts = [] \<longrightarrow> RequestPty_error session = None"
    and "Start_error (run session cmd) = None"
    and "Stdin execOpts \<noteq> [] \<longrightarrow> WriteString_error (run session cmd) = None"
    and "exit_status (run session cmd) = Some 0"
    and "Stderr_lines (run session cmd) \<noteq> []"
  shows "returned_error (SSH_Exec c cmd0 execOpts) =
           Returns (if knowOs c \<and> isWindows c \<and> \<not> AllowWinStderr execOpts
                    then Some (Wrapf ErrCommandFailed ''data in stderr'' None) else None)"
  using assms
  by (auto simp: SSH_Exec_def Let_def session_Wait_def)

lemma SSH_Exec_returns:
  assumes "SSH.client c = Some cl"
  shows "SSH_Exec c cmd0 execOpts \<noteq> Panics"
proof (cases "NewSession cl")
  case (Inl e)
  with assms show ?thesis by (simp add: SSH_Exec_def)
next
  case (Inr session)
  obtain cmd e where b: "Command execOpts cmd0 = (cmd, e)"
    by (cases "Command execOpts cmd0")
  show ?thesis
  proof (cases e)
    case (Some err)
    with assms Inr b show ?thesis by (simp add: SSH_Exec_def)
  next
    case None
    with assms Inr b show ?thesis
      by (simp add: SSH_Exec_def Let_def split: option.split)
  qed
qed

text \<open>
  C3. A call of \<open>Exec\<close> on a connected host returns. When the session was opened and
  the command was built, the PTY requests among the calls on the session are exactly
  one request \<open>RequestPty("xterm", 80, 40, {ECHO: 0})\<close> if the OS is known, is not
  Windows and no stdin payload is given, and none otherwise. Whatever the call, a PTY
  request is only made under that condition and is that request, with \<open>ECHO\<close> off. The
  source passes \<open>ptyWidth\<close> (80) where \<open>RequestPty\<close> takes the height and \<open>ptyHeight\<close> (40)
  where it takes the width: the terminal requested has 80 rows and 40 columns, not 80
  columns and 40 rows.
\<close>

theorem SSH_Exec_pty_rule:
  "(SSH.client c = Some cl \<longrightarrow> SSH_Exec c cmd0 execOpts \<noteq> Panics)
   \<and> (SSH.client c = Some cl \<and> NewSession cl = Inr session
        \<and> Command execOpts cmd0 = (cmd, None)
        \<and> SSH_Exec c cmd0 execOpts = Returns (err, calls) \<longrightarrow>
        pty_requests calls =
          (if knowOs c \<and> \<not> isWindows c \<and> Stdin execOpts = []
           then [RequestPty ''xterm'' ptyWidth ptyHeight [(ECHO, 0)]] else []))
   \<and> (SSH_Exec c cmd0 execOpts = Returns (err, calls) \<and> pty_requests calls \<noteq> [] \<longrightarrow>
        knowOs c \<and> \<not> isWindows c \<and> Stdin execOpts = []
        \<and> pty_requests calls = [RequestPty ''xterm'' 80 40 [(ECHO, 0)]])
   \<and> (SSH_Exec c cmd0 execOpts = Returns (err, calls) \<and> pty_requests calls \<noteq> [] \<longrightarrow>
        map requested_rows (pty_requests calls) = [Some ptyWidth]
        \<and> map requested_columns (pty_requests calls) = [Some ptyHeight])
   \<and> ptyWidth = 80 \<and> ptyHeight = 40"
proof (intro conjI impI)
  assume "SSH.client c = Some cl"
  then show "SSH_Exec c cmd0 execOpts \<noteq> Panics"
    by (rule SSH_Exec_returns)
next
  assume "SSH.client c = Some cl \<and> NewSession cl = Inr session
        \<and> Command execOpts cmd0 = (cmd, None)
        \<and> SSH_Exec c cmd0 execOpts = Returns (err, calls)"
  then show "pty_requests calls =
          (if knowOs c \<and> \<not> isWindows c \<and> Stdin execOpts = []
           then [RequestPty ''xterm'' ptyWidth ptyHeight [(ECHO, 0)]] else [])"
    using SSH_Exec_pty_reached [of c cl session execOpts cmd0 cmd err calls]
    by (simp add: ptyWidth_def ptyHeight_def)
next
  assume a: "SSH_Exec c cmd0 execOpts = Returns (err, calls) \<and> pty_requests calls \<noteq> []"
  then show "knowOs c" "\<not> isWindows c" "Stdin execOpts = []"
    "pty_requests calls = [RequestPty ''xterm'' 80 40 [(ECHO, 0)]]"
    using SSH_Exec_pty_only_if [of c cmd0 execOpts err calls] by simp_all
next
  assume a: "SSH_Exec c cmd0 execOpts = Returns (err, calls) \<and> pty_requests calls \<noteq> []"
  then have "pty_requests calls = [RequestPty ''xterm'' 80 40 [(ECHO, 0)]]"
    using SSH_Exec_pty_only_if [of c cmd0 execOpts err calls] by simp
  then show "map requested_rows (pty_requests calls) = [Some ptyWidth]"
    "map requested_columns (pty_requests calls) = [Some ptyHeight]"
    by (simp_all add: ptyWidth_def ptyHeight_def)
next
  show "ptyWidth = 80" by (simp add: ptyWidth_def)
next
  show "ptyHeight = 40" by (simp add: ptyHeight_def)
qed

theorem SSH_Exec_pty_rule_witness:
  "SSH.client example_SSH_linux = Some example_ssh_client
   \<and> NewSession example_ssh_client = Inr \<lparr>RequestPty_error = None, run = (\<lambda>cmd. example_run)\<rparr>
   \<and> Command exec_Build_none ''ls'' = (''ls'', None)
   \<and> SSH_Exec example_SSH_linux ''ls'' exec_Build_none =
       Returns (None, [RequestPty ''xterm'' 80 40 [(ECHO, 0)], Start ''ls'', CloseStdin, Wait, Close])
   \<and> pty_requests [RequestPty ''xterm'' 80 40 [(ECHO, 0)], Start ''ls'', CloseStdin, Wait, Close]
       = [RequestPty ''xterm'' 80 40 [(ECHO, 0)]]
   \<and> knowOs example_SSH_linux \<and> \<not> isWindows example_SSH_linux \<and> Stdin exec_Build_none = []
   \<and> map requested_rows
        (pty_requests [RequestPty ''xterm'' 80 40 [(ECHO, 0)], Start ''ls'', CloseStdin, Wait, Close])
       = [Some 80]
   \<and> map requested_columns
        (pty_requests [RequestPty ''xterm'' 80 40 [(ECHO, 0)], Start ''ls'', CloseStdin, Wait, Close])
       = [Some 40]
   \<and> SSH_Exec example_SSH_windows ''dir'' example_Options_allow =
       Returns (None, [Start ''dir'', CloseStdin, Wait, Close])
   \<and> pty_requests [Start ''dir'', CloseStdin, Wait, Close] = []"
proof -
  let ?calls = "[RequestPty ''xterm'' 80 40 [(ECHO, 0)], Start ''ls'', CloseStdin, Wait, Close]"
  have h1: "SSH.client example_SSH_linux = Some example_ssh_client"
    by (simp add: example_SSH_linux_def)
  have h2: "NewSession example_ssh_client = Inr \<lparr>RequestPty_error = None, run = (\<lambda>cmd. example_run)\<rparr>"
    by (simp add: example_ssh_client_def)
  have h3: "Command exec_Build_none ''ls'' = (''ls'', None)"
    by (simp add: exec_Build_none_def)
  have h4: "SSH_Exec example_SSH_linux ''ls'' exec_Build_none = Returns (None, ?calls)"
    by (simp add: SSH_Exec_def Let_def example_SSH_linux_def example_SSH_def example_ssh_client_def
        example_run_def exec_Build_none_def session_Wait_def ptyWidth_def ptyHeight_def)
  have h5: "pty_requests ?calls \<noteq> []"
    by simp
  have p1: "knowOs example_SSH_linux \<and> \<not> isWindows example_SSH_linux \<and> Stdin exec_Build_none = []
        \<and> pty_requests ?calls = [RequestPty ''xterm'' 80 40 [(ECHO, 0)]]"
    using h4 h5
      SSH_Exec_pty_rule [of example_SSH_linux example_ssh_client "''ls''" exec_Build_none
        "\<lparr>RequestPty_error = None, run = (\<lambda>cmd. example_run)\<rparr>" "''ls''" None ?calls]
    by blast
  have "map requested_rows (pty_requests ?calls) = [Some ptyWidth]
        \<and> map requested_columns (pty_requests ?calls) = [Some ptyHeight]
        \<and> ptyWidth = 80 \<and> ptyHeight = 40"
    using h4 h5
      SSH_Exec_pty_rule [of example_SSH_linux example_ssh_client "''ls''" exec_Build_none
        "\<lparr>RequestPty_error = None, run = (\<lambda>cmd. example_run)\<rparr>" "''ls''" None ?calls]
    by blast
  then have sz: "map requested_rows (pty_requests ?calls) = [Some 80]"
    "map requested_columns (pty_requests ?calls) = [Some 40]"
    by simp_all
  have w1: "SSH.client example_SSH_windows = Some example_ssh_client"
    by (simp add: example_SSH_windows_def)
  have w3: "Command example_Options_allow ''dir'' = (''dir'', None)"
    by (simp add: example_Options_allow_def exec_Build_none_def)
  have w4: "SSH_Exec example_SSH_windows ''dir'' example_Options_allow =
       Returns (None, [Start ''dir'', CloseStdin, Wait, Close])"
    by (simp add: SSH_Exec_def Let_def example_SSH_windows_def example_SSH_def example_ssh_client_def
        example_run_def example_Options_allow_def exec_Build_none_def session_Wait_def)
  have w5: "isWindows example_SSH_windows"
    by (simp add: example_SSH_windows_def)
  have "pty_requests [Start ''dir'', CloseStdin, Wait, Close] =
          (if knowOs example_SSH_windows \<and> \<not> isWindows example_SSH_windows
              \<and> Stdin example_Options_allow = []
           then [RequestPty ''xterm'' ptyWidth ptyHeight [(ECHO, 0)]] else [])"
    using w1 h2 w3 w4
      SSH_Exec_pty_rule [of example_SSH_windows example_ssh_client "''dir''" example_Options_allow
        "\<lparr>RequestPty_error = None, run = (\<lambda>cmd. example_run)\<rparr>" "''dir''" None
        "[Start ''dir'', CloseStdin, Wait, Close]"]
    by blast
  with w5 have p2: "pty_requests [Start ''dir'', CloseStdin, Wait, Close] = []"
    by simp
  from h1 h2 h3 h4 p1 sz w4 p2 show ?thesis
    by blast
qed

text \<open>
  C2. Take a call of \<open>Exec\<close> in which the session opens, the command is built, the PTY
  is granted if it is requested, the command starts, the stdin payload is written if
  there is one,
  the command exits with status 0 and the scanner reads at least one line from stderr.
  If the host is known to run Windows and \<open>AllowWinStderr\<close> is false, \<open>Exec\<close> returns
  the command-failed error \<open>data in stderr\<close>; with \<open>AllowWinStderr\<close> true, or on a host
  that is not Windows or whose OS is not known, it returns nil.
\<close>

theorem SSH_Exec_windows_stderr_rule:
  "SSH.client c = Some cl \<and> NewSession cl = Inr session
   \<and> Command execOpts cmd0 = (cmd, None)
   \<and> (knowOs c \<and> \<not> isWindows c \<and> Stdin execOpts = [] \<longrightarrow> RequestPty_error session = None)
   \<and> Start_error (run session cmd) = None
   \<and> (Stdin execOpts \<noteq> [] \<longrightarrow> WriteString_error (run session cmd) = None)
   \<and> exit_status (run session cmd) = Some 0
   \<and> Stderr_lines (run session cmd) \<noteq> []
   \<longrightarrow>
     returned_error (SSH_Exec c cmd0 execOpts) =
       Returns (if knowOs c \<and> isWindows c \<and> \<not> AllowWinStderr execOpts
                then Some (Wrapf ErrCommandFailed ''data in stderr'' None) else None)
     \<and> error_is (Wrapf ErrCommandFailed ''data in stderr'' None) ErrCommandFailed"
  using SSH_Exec_stderr_rule [of c cl session execOpts cmd0 cmd] by simp

theorem SSH_Exec_windows_stderr_rule_witness:
  "SSH.client example_SSH_windows = Some example_ssh_client
   \<and> NewSession example_ssh_client = Inr \<lparr>RequestPty_error = None, run = (\<lambda>cmd. example_run)\<rparr>
   \<and> Command exec_Build_none ''dir'' = (''dir'', None)
   \<and> exit_status example_run = Some 0
   \<and> Stderr_lines example_run = [''warning'']
   \<and> knowOs example_SSH_windows \<and> isWindows example_SSH_windows
   \<and> \<not> AllowWinStderr exec_Build_none
   \<and> returned_error (SSH_Exec example_SSH_windows ''dir'' exec_Build_none) =
       Returns (Some (Wrapf ErrCommandFailed ''data in stderr'' None))
   \<and> AllowWinStderr example_Options_allow
   \<and> returned_error (SSH_Exec example_SSH_windows ''dir'' example_Options_allow) = Returns None
   \<and> \<not> isWindows example_SSH_linux
   \<and> returned_error (SSH_Exec example_SSH_linux ''dir'' exec_Build_none) = Returns None"
proof -
  let ?session = "\<lparr>RequestPty_error = None, run = (\<lambda>cmd. example_run)\<rparr>"
  have h1: "SSH.client example_SSH_windows = Some example_ssh_client"
    by (simp add: example_SSH_windows_def)
  have h1': "SSH.client example_SSH_linux = Some example_ssh_client"
    by (simp add: example_SSH_linux_def)
  have h2: "NewSession example_ssh_client = Inr ?session"
    by (simp add: example_ssh_client_def)
  have h3: "Command exec_Build_none ''dir'' = (''dir'', None)"
    by (simp add: exec_Build_none_def)
  have h3': "Command example_Options_allow ''dir'' = (''dir'', None)"
    by (simp add: example_Options_allow_def exec_Build_none_def)
  have h4: "RequestPty_error ?session = None" "Start_error (run ?session ''dir'') = None"
    "WriteString_error (run ?session ''dir'') = None"
    "exit_status (run ?session ''dir'') = Some 0" "Stderr_lines (run ?session ''dir'') \<noteq> []"
    by (simp_all add: example_run_def)
  have e1: "exit_status example_run = Some 0" and e2: "Stderr_lines example_run = [''warning'']"
    by (simp_all add: example_run_def)
  have k: "knowOs example_SSH_windows" "isWindows example_SSH_windows"
    by (simp_all add: example_SSH_windows_def)
  have l: "\<not> isWindows example_SSH_linux"
    by (simp add: example_SSH_linux_def example_SSH_def)
  have a1: "\<not> AllowWinStderr exec_Build_none"
    by (simp add: exec_Build_none_def)
  have a2: "AllowWinStderr example_Options_allow"
    by (simp add: example_Options_allow_def)
  have "returned_error (SSH_Exec example_SSH_windows ''dir'' exec_Build_none) =
       Returns (if knowOs example_SSH_windows \<and> isWindows example_SSH_windows
                   \<and> \<not> AllowWinStderr exec_Build_none
                then Some (Wrapf ErrCommandFailed ''data in stderr'' None) else None)"
    using h1 h2 h3 h4
      SSH_Exec_windows_stderr_rule [of example_SSH_windows example_ssh_client ?session
        exec_Build_none "''dir''" "''dir''"]
    by blast
  with k a1 have p1: "returned_error (SSH_Exec example_SSH_windows ''dir'' exec_Build_none) =
       Returns (Some (Wrapf ErrCommandFailed ''data in stderr'' None))"
    by simp
  have "returned_error (SSH_Exec example_SSH_windows ''dir'' example_Options_allow) =
       Returns (if knowOs example_SSH_windows \<and> isWindows example_SSH_windows
                   \<and> \<not> AllowWinStderr example_Options_allow
                then Some (Wrapf ErrCommandFailed ''data in stderr'' None) else None)"
    using h1 h2 h3' h4
      SSH_Exec_windows_stderr_rule [of example_SSH_windows example_ssh_client ?session
        example_Options_allow "''dir''" "''dir''"]
    by blast
  with a2 have p2: "returned_error (SSH_Exec example_SSH_windows ''dir'' example_Options_allow)
       = Returns None"
    by simp
  have "returned_error (SSH_Exec example_SSH_linux ''dir'' exec_Build_none) =
       Returns (if knowOs example_SSH_linux \<and> isWindows example_SSH_linux
                   \<and> \<not> AllowWinStderr exec_Build_none
                then Some (Wrapf ErrCommandFailed ''data in stderr'' None) else None)"
    using h1' h2 h3 h4
      SSH_Exec_windows_stderr_rule [of example_SSH_linux example_ssh_client ?session
        exec_Build_none "''dir''" "''dir''"]
    by blast
  with l have p3: "returned_error (SSH_Exec example_SSH_linux ''dir'' exec_Build_none) = Returns None"
    by simp
  from h1 h2 h3 e1 e2 k a1 p1 a2 p2 l p3 show ?thesis
    by blast
qed

section \<open>Properties of the WinRM transport\<close>

lemma loadCertificates_frame:
  assumes "loadCertificates m c = (None, c')"
  shows "UseNTLM c' = UseNTLM c \<and> UseHTTPS c' = UseHTTPS c \<and> Bastion c' = Bastion c
         \<and> WinRM.client c' = WinRM.client c"
  using assms
  by (auto simp: loadCertificates_def Let_def split: sum.splits if_splits)

lemma Connect_decorators_value:
  "TransportDecorator (Connect_decorators c params0) =
     (if UseHTTPS c \<and> cert c \<noteq> [] then Some ClientAuthRequest
      else if UseNTLM c then Some ClientNTLM
      else TransportDecorator params0)"
  by (simp add: Connect_decorators_def Let_def)

lemma WinRM_Connect_transport:
  assumes "WinRM_Connect m bastion_Connect srv shared c = (None, c', shared')"
  shows "client_transport c' =
           Some (if UseHTTPS c \<and> cert c' \<noteq> [] then Some ClientAuthRequest
                 else if UseNTLM c then Some ClientNTLM
                 else TransportDecorator shared)"
    and "TransportDecorator shared' =
           (if UseHTTPS c \<and> cert c' \<noteq> [] then Some ClientAuthRequest
            else if UseNTLM c then Some ClientNTLM
            else TransportDecorator shared)"
proof -
  obtain e1 c1 where lc: "loadCertificates m c = (e1, c1)"
    by (cases "loadCertificates m c")
  with assms have e1: "e1 = None"
    by (cases e1) (auto simp: WinRM_Connect_def)
  from lc e1 have fr: "UseNTLM c1 = UseNTLM c" "UseHTTPS c1 = UseHTTPS c"
    using loadCertificates_frame by blast+
  show "client_transport c' =
           Some (if UseHTTPS c \<and> cert c' \<noteq> [] then Some ClientAuthRequest
                 else if UseNTLM c then Some ClientNTLM
                 else TransportDecorator shared)"
    using assms lc e1 fr
    by (auto simp: WinRM_Connect_def Let_def client_transport_def Connect_decorators_value
        split: option.splits prod.splits sum.splits)
  show "TransportDecorator shared' =
           (if UseHTTPS c \<and> cert c' \<noteq> [] then Some ClientAuthRequest
            else if UseNTLM c then Some ClientNTLM
            else TransportDecorator shared)"
    using assms lc e1 fr
    by (auto simp: WinRM_Connect_def Let_def Connect_decorators_value
        split: option.splits prod.splits sum.splits)
qed

lemma loadCertificates_cert:
  assumes "loadCertificates m c = (None, c')"
  shows "if CertPath c = [] then cert c' = [] else ReadFile m (CertPath c) = Inr (cert c')"
  using assms
  by (auto simp: loadCertificates_def Let_def split: sum.splits if_splits)

lemma WinRM_Connect_cert:
  assumes "WinRM_Connect m bastion_Connect srv shared c = (None, c', shared')"
  shows "if CertPath c = [] then cert c' = [] else ReadFile m (CertPath c) = Inr (cert c')"
proof -
  obtain e1 c1 where lc: "loadCertificates m c = (e1, c1)"
    by (cases "loadCertificates m c")
  with assms have e1: "e1 = None"
    by (cases e1) (auto simp: WinRM_Connect_def)
  have c1: "if CertPath c = [] then cert c1 = [] else ReadFile m (CertPath c) = Inr (cert c1)"
    using lc e1 loadCertificates_cert by blast
  have "cert c' = cert c1"
    using assms lc e1
    by (auto simp: WinRM_Connect_def Let_def
        split: option.splits prod.splits sum.splits)
  with c1 show ?thesis by simp
qed

lemma example_WinRM_Connect:
  "WinRM_Connect example_machine (SSH_Connect example_collaborators) example_winrm_server
     initial_DefaultParameters example_WinRM
   = (None, example_WinRM_connected,
      \<lparr>Dial = default_Dial, TransportDecorator = Some ClientAuthRequest\<rparr>)"
  by (simp add: WinRM_Connect_def Let_def loadCertificates_def example_WinRM_def
      example_WinRM_connected_def example_machine_def example_winrm_server_def
      initial_DefaultParameters_def Connect_decorators_def)

lemma example_WinRM_plain_Connect:
  "fst (WinRM_Connect example_machine (SSH_Connect example_collaborators) example_winrm_server
     \<lparr>Dial = default_Dial, TransportDecorator = Some ClientAuthRequest\<rparr> example_WinRM_plain)
   = None"
  by (simp add: WinRM_Connect_def Let_def loadCertificates_def example_WinRM_plain_def
      example_WinRM_def example_winrm_server_def Connect_decorators_def)

text \<open>
  C6, as the code has it. A client that \<open>Connect\<close> has built carries one transport
  decorator, so the NTLM and the client-certificate transport exclude each other. It is
  the client-certificate transport when HTTPS is on and a client certificate was loaded
  (from \<open>CertPath\<close>), whether or not NTLM is requested: with both configured the
  client-certificate transport takes precedence. Otherwise it is the NTLM transport when
  NTLM is requested, and otherwise whatever decorator the library's shared
  \<open>DefaultParameters\<close> held before the call: none at the start of the process, and after
  that the one the last \<open>Connect\<close> that set a decorator left there. The shared value
  ends with the decorator of the client.
\<close>

theorem WinRM_Connect_transport_precedence:
  "WinRM_Connect m bastion_Connect srv shared c = (None, c', shared') \<longrightarrow>
     client_transport c' =
       Some (if UseHTTPS c \<and> cert c' \<noteq> [] then Some ClientAuthRequest
             else if UseNTLM c then Some ClientNTLM
             else TransportDecorator shared)
     \<and> TransportDecorator shared' =
         (if UseHTTPS c \<and> cert c' \<noteq> [] then Some ClientAuthRequest
          else if UseNTLM c then Some ClientNTLM
          else TransportDecorator shared)
     \<and> (if CertPath c = [] then cert c' = [] else ReadFile m (CertPath c) = Inr (cert c'))"
  using WinRM_Connect_transport [of m bastion_Connect srv shared c c' shared']
    WinRM_Connect_cert [of m bastion_Connect srv shared c c' shared']
  by blast

theorem WinRM_Connect_transport_precedence_witness:
  "WinRM_Connect example_machine (SSH_Connect example_collaborators) example_winrm_server
     initial_DefaultParameters example_WinRM
   = (None, example_WinRM_connected,
      \<lparr>Dial = default_Dial, TransportDecorator = Some ClientAuthRequest\<rparr>)
   \<and> UseNTLM example_WinRM \<and> UseHTTPS example_WinRM
   \<and> cert example_WinRM_connected = ''CERTIFICATE''
   \<and> client_transport example_WinRM_connected = Some (Some ClientAuthRequest)
   \<and> \<not> UseNTLM example_WinRM_plain \<and> \<not> UseHTTPS example_WinRM_plain
   \<and> fst (WinRM_Connect example_machine (SSH_Connect example_collaborators)
            example_winrm_server
            \<lparr>Dial = default_Dial, TransportDecorator = Some ClientAuthRequest\<rparr>
            example_WinRM_plain) = None
   \<and> client_transport
        (fst (snd (WinRM_Connect example_machine (SSH_Connect example_collaborators)
                     example_winrm_server
                     \<lparr>Dial = default_Dial, TransportDecorator = Some ClientAuthRequest\<rparr>
                     example_WinRM_plain)))
       = Some (Some ClientAuthRequest)"
proof -
  let ?left = "\<lparr>Dial = default_Dial, TransportDecorator = Some ClientAuthRequest\<rparr>"
  let ?r = "WinRM_Connect example_machine (SSH_Connect example_collaborators)
              example_winrm_server ?left example_WinRM_plain"
  have u: "UseNTLM example_WinRM" "UseHTTPS example_WinRM"
    by (simp_all add: example_WinRM_def)
  have c: "cert example_WinRM_connected = ''CERTIFICATE''"
    by (simp add: example_WinRM_connected_def)
  have "client_transport example_WinRM_connected =
       Some (if UseHTTPS example_WinRM \<and> cert example_WinRM_connected \<noteq> []
             then Some ClientAuthRequest
             else if UseNTLM example_WinRM then Some ClientNTLM
             else TransportDecorator initial_DefaultParameters)"
    using example_WinRM_Connect
      WinRM_Connect_transport_precedence [of example_machine "SSH_Connect example_collaborators"
        example_winrm_server initial_DefaultParameters example_WinRM example_WinRM_connected
        ?left]
    by blast
  with u c have t1: "client_transport example_WinRM_connected = Some (Some ClientAuthRequest)"
    by simp
  have v: "\<not> UseNTLM example_WinRM_plain" "\<not> UseHTTPS example_WinRM_plain"
    by (simp_all add: example_WinRM_plain_def)
  have eq: "?r = (None, fst (snd ?r), snd (snd ?r))"
    using example_WinRM_plain_Connect by (metis prod.collapse)
  have "client_transport (fst (snd ?r)) =
       Some (if UseHTTPS example_WinRM_plain \<and> cert (fst (snd ?r)) \<noteq> []
             then Some ClientAuthRequest
             else if UseNTLM example_WinRM_plain then Some ClientNTLM
             else TransportDecorator ?left)"
    using eq
      WinRM_Connect_transport_precedence [of example_machine "SSH_Connect example_collaborators"
        example_winrm_server ?left example_WinRM_plain "fst (snd ?r)" "snd (snd ?r)"]
    by blast
  with v have t2: "client_transport (fst (snd ?r)) = Some (Some ClientAuthRequest)"
    by simp
  from example_WinRM_Connect u c t1 v example_WinRM_plain_Connect t2 show ?thesis
    by blast
qed

text \<open>
  The statement of C6 as written (NTLM takes precedence) fails on the example host,
  which has NTLM, HTTPS and a client certificate: the client built for it has the
  client-certificate transport, not the NTLM transport.
\<close>

theorem WinRM_Connect_NTLM_precedence_counterexample:
  "UseNTLM example_WinRM \<and> UseHTTPS example_WinRM
   \<and> (case WinRM_Connect example_machine (SSH_Connect example_collaborators)
             example_winrm_server initial_DefaultParameters example_WinRM of
        (e, c', DefaultParameters') \<Rightarrow>
          e = None \<and> cert c' = ''CERTIFICATE''
          \<and> client_transport c' = Some (Some ClientAuthRequest)
          \<and> client_transport c' \<noteq> Some (Some ClientNTLM))"
  by (simp add: WinRM_Connect_def Let_def loadCertificates_def example_WinRM_def
      example_machine_def example_winrm_server_def initial_DefaultParameters_def
      client_transport_def Connect_decorators_def)

lemma WinRM_Exec_negative:
  assumes "WinRM.client c = Some cl" and "CreateShell_error (server cl) = None"
    and "ExecuteWithContext_error (execute (server cl) cmd) = None"
    and "ExitCode (execute (server cl) cmd) < 0"
    and "Command_Stderr_lines (execute (server cl) cmd) = []"
    and "Command_Stderr_scan_error (execute (server cl) cmd) = None"
  shows "WinRM_Exec c cmd execOpts = Returns None"
  using assms by (simp add: WinRM_Exec_def Let_def)

lemma Command_Wait_nonzero:
  "ExitCode proc \<noteq> 0 \<Longrightarrow> \<exists>e. Command_Wait proc = Some e \<and> error_is e ErrCommandFailed"
  by (simp add: Command_Wait_def)

text \<open>
  C8. On a connected WinRM host whose server runs the command with a negative exit code
  and nothing on stderr, \<open>WinRM.Exec\<close> returns nil: its test is \<open>ec > 0\<close>. The waiter of
  \<open>ExecStreams\<close> returns a command-failed error for the same command: its test is
  \<open>ExitCode() != 0\<close>.
\<close>

theorem WinRM_Exec_negative_exit_code:
  "WinRM.client c = Some cl \<and> CreateShell_error (server cl) = None
   \<and> ExecuteWithContext_error (execute (server cl) cmd) = None
   \<and> ExitCode (execute (server cl) cmd) < 0
   \<and> Command_Stderr_lines (execute (server cl) cmd) = []
   \<and> Command_Stderr_scan_error (execute (server cl) cmd) = None
   \<longrightarrow>
     WinRM_Exec c cmd execOpts = Returns None
     \<and> (\<exists>e. Command_Wait (execute (server cl) cmd) = Some e \<and> error_is e ErrCommandFailed)"
  using WinRM_Exec_negative [of c cl cmd execOpts]
    Command_Wait_nonzero [of "execute (server cl) cmd"]
  by auto

theorem WinRM_Exec_negative_exit_code_witness:
  "ExitCode (execute example_winrm_server ''cmd /c exit -1'') = - 1
   \<and> WinRM_Exec example_WinRM_connected ''cmd /c exit -1'' exec_Build_none = Returns None
   \<and> WinRM_ExecStreams example_WinRM_connected ''cmd /c exit -1'' exec_Build_none
       = Inr (execute example_winrm_server ''cmd /c exit -1'')
   \<and> Command_Wait (execute example_winrm_server ''cmd /c exit -1'')
       = Some (Wrapf ErrCommandFailed ''exit code -1'' None)"
proof -
  let ?cl = "\<lparr>endpoint = \<lparr>Host = ''10.0.0.2'', winrm_Endpoint.Port = 5986, HTTPS = True,
                          winrm_Endpoint.Insecure = False, winrm_Endpoint.TLSServerName = [],
                          CACert = [], Cert = ''CERTIFICATE'', Key = [], Timeout_seconds = 60\<rparr>,
             user = ''Administrator'', password = ''secret'',
             params = \<lparr>Dial = default_Dial, TransportDecorator = Some ClientAuthRequest\<rparr>,
             server = example_winrm_server\<rparr>"
  have h1: "WinRM.client example_WinRM_connected = Some ?cl"
    by (simp add: example_WinRM_connected_def)
  have h2: "CreateShell_error (server ?cl) = None"
    "ExecuteWithContext_error (execute (server ?cl) ''cmd /c exit -1'') = None"
    "ExitCode (execute (server ?cl) ''cmd /c exit -1'') < 0"
    "Command_Stderr_lines (execute (server ?cl) ''cmd /c exit -1'') = []"
    "Command_Stderr_scan_error (execute (server ?cl) ''cmd /c exit -1'') = None"
    by (simp_all add: example_winrm_server_def)
  have e: "ExitCode (execute example_winrm_server ''cmd /c exit -1'') = - 1"
    by (simp add: example_winrm_server_def)
  have p1: "WinRM_Exec example_WinRM_connected ''cmd /c exit -1'' exec_Build_none = Returns None"
    using h1 h2
      WinRM_Exec_negative_exit_code [of example_WinRM_connected ?cl "''cmd /c exit -1''"
        exec_Build_none]
    by blast
  have p2: "WinRM_ExecStreams example_WinRM_connected ''cmd /c exit -1'' exec_Build_none
       = Inr (execute example_winrm_server ''cmd /c exit -1'')"
    by (simp add: WinRM_ExecStreams_def example_WinRM_connected_def example_winrm_server_def
        exec_Build_none_def)
  have p3: "Command_Wait (execute example_winrm_server ''cmd /c exit -1'')
       = Some (Wrapf ErrCommandFailed ''exit code -1'' None)"
    by (simp add: Command_Wait_def example_winrm_server_def strconv_Itoa_def nat_digits.simps)
  from e p1 p2 p3 show ?thesis
    by blast
qed

section \<open>Properties of the connection\<close>

lemma Connect_probe_failure:
  assumes "Connection.client c = None \<longrightarrow> defaults_Set_error col = None"
    and "Connection.client (Connection_SetDefaults col c) = Some cl"
    and "client_Connect m col cl = (None, cl')"
    and "OSVersion c = None" and "GetOSVersion col = Inl err"
  shows "Connect m col c =
           Returns (Some err, (Connection_SetDefaults col c)\<lparr>Connection.client := Some cl'\<rparr>)"
proof -
  have o: "OSVersion (Connection_SetDefaults col c) = OSVersion c"
    by (simp add: Connection_SetDefaults_def Let_def)
  have d: "(if Connection.client c = None then defaults_Set col c else (None, c))
           = (None, Connection_SetDefaults col c)"
    using assms(1) by (auto simp: defaults_Set_def Connection_SetDefaults_def)
  show ?thesis
    using assms(2-) o by (simp add: Connect_def d Let_def)
qed

lemma WinRM_Connect_connected:
  assumes "WinRM_Connect m bastion_Connect srv shared c = (None, c', shared')"
  shows "WinRM_IsConnected c'"
  using WinRM_Connect_transport(1) [OF assms]
  by (auto simp: WinRM_IsConnected_def client_transport_def split: option.splits)

text \<open>
  C7. When the transport connects and the OS probe fails, \<open>Connect\<close> returns the probe's
  error and leaves the client bound: the client is the transport as its own \<open>Connect\<close>
  left it, so \<open>IsConnected\<close> is true after the failed \<open>Connect\<close> whenever that transport
  reports itself connected, as a WinRM transport does after its \<open>Connect\<close> succeeded.
\<close>

theorem Connect_probe_failure_keeps_client:
  "((Connection.client c = None \<longrightarrow> defaults_Set_error col = None)
    \<and> Connection.client (Connection_SetDefaults col c) = Some cl
    \<and> client_Connect m col cl = (None, cl')
    \<and> client_IsConnected col cl'
    \<and> OSVersion c = None \<and> GetOSVersion col = Inl err
    \<longrightarrow>
      Connect m col c =
        Returns (Some err, (Connection_SetDefaults col c)\<lparr>Connection.client := Some cl'\<rparr>)
      \<and> IsConnected col ((Connection_SetDefaults col c)\<lparr>Connection.client := Some cl'\<rparr>))
   \<and> (WinRM_Connect m bastion_Connect srv shared w = (None, w', shared') \<longrightarrow>
        WinRM_IsConnected w')"
proof (intro conjI impI)
  assume a: "(Connection.client c = None \<longrightarrow> defaults_Set_error col = None)
    \<and> Connection.client (Connection_SetDefaults col c) = Some cl
    \<and> client_Connect m col cl = (None, cl')
    \<and> client_IsConnected col cl'
    \<and> OSVersion c = None \<and> GetOSVersion col = Inl err"
  then show "Connect m col c =
        Returns (Some err, (Connection_SetDefaults col c)\<lparr>Connection.client := Some cl'\<rparr>)"
    by (elim conjE) (rule Connect_probe_failure; assumption)
  from a show "IsConnected col ((Connection_SetDefaults col c)\<lparr>Connection.client := Some cl'\<rparr>)"
    by (simp add: IsConnected_def)
next
  assume "WinRM_Connect m bastion_Connect srv shared w = (None, w', shared')"
  then show "WinRM_IsConnected w'"
    by (rule WinRM_Connect_connected)
qed

theorem Connect_probe_failure_keeps_client_witness:
  "Connection.client example_Connection = None
   \<and> defaults_Set_error example_collaborators = None
   \<and> client_Connect example_machine example_collaborators (client_WinRM example_WinRM)
       = (None, client_WinRM example_WinRM_connected)
   \<and> GetOSVersion example_collaborators = Inl (External ''unable to determine host os'')
   \<and> Connect example_machine example_collaborators example_Connection =
       Returns (Some (External ''unable to determine host os''),
                example_Connection\<lparr>Connection.client := Some (client_WinRM example_WinRM_connected)\<rparr>)
   \<and> IsConnected example_collaborators
        (example_Connection\<lparr>Connection.client := Some (client_WinRM example_WinRM_connected)\<rparr>)"
proof -
  let ?bound = "Connection_SetDefaults example_collaborators example_Connection"
  have h0: "Connection.client example_Connection = None"
    by (simp add: example_Connection_def)
  have h1: "defaults_Set_error example_collaborators = None"
    by (simp add: example_collaborators_def)
  have h2: "Connection.client ?bound = Some (client_WinRM example_WinRM)"
    by (simp add: Connection_SetDefaults_def configuredClient_def example_Connection_def
        example_collaborators_def)
  have h3: "client_Connect example_machine example_collaborators (client_WinRM example_WinRM)
       = (None, client_WinRM example_WinRM_connected)"
    using example_WinRM_Connect by (simp add: client_Connect_def example_collaborators_def)
  have h4: "client_IsConnected example_collaborators (client_WinRM example_WinRM_connected)"
    by (simp add: client_IsConnected_def WinRM_IsConnected_def example_WinRM_connected_def)
  have h5: "OSVersion example_Connection = None"
    by (simp add: example_Connection_def)
  have h6: "GetOSVersion example_collaborators = Inl (External ''unable to determine host os'')"
    by (simp add: example_collaborators_def)
  have b: "?bound\<lparr>Connection.client := Some (client_WinRM example_WinRM_connected)\<rparr>
           = example_Connection\<lparr>Connection.client := Some (client_WinRM example_WinRM_connected)\<rparr>"
    by (simp add: Connection_SetDefaults_def example_Connection_def)
  have "Connect example_machine example_collaborators example_Connection =
        Returns (Some (External ''unable to determine host os''),
                 ?bound\<lparr>Connection.client := Some (client_WinRM example_WinRM_connected)\<rparr>)
      \<and> IsConnected example_collaborators
           (?bound\<lparr>Connection.client := Some (client_WinRM example_WinRM_connected)\<rparr>)"
    using h1 h2 h3 h4 h5 h6
      Connect_probe_failure_keeps_client [of example_Connection example_collaborators
        "client_WinRM example_WinRM" example_machine "client_WinRM example_WinRM_connected"
        "External ''unable to determine host os''"]
    by blast
  with b have "Connect example_machine example_collaborators example_Connection =
        Returns (Some (External ''unable to determine host os''),
                 example_Connection\<lparr>Connection.client := Some (client_WinRM example_WinRM_connected)\<rparr>)
      \<and> IsConnected example_collaborators
           (example_Connection\<lparr>Connection.client := Some (client_WinRM example_WinRM_connected)\<rparr>)"
    by simp
  with h0 h1 h3 h6 show ?thesis
    by blast
qed

lemma Upload_checksum_step:
  assumes "checkConnected col c = None" and "os_Open col src = Inr local"
    and "file_Stat local = Inr (mode, sz)" and "Fsys col c = Returns (fs, c1)"
    and "OpenFile fs dst mode = Inr remote" and "CopyFromN remote local sz = Inr streamed"
    and "Sha256 fs dst = Inr remoteSum"
  shows "returned_error (Upload col c src dst) =
           Returns (if remoteSum = sha256_hex col streamed then None
                    else Some (Wrapf ErrUploadFailed ''checksum mismatch'' None))"
  using assms by (simp add: Upload_def)

text \<open>
  C4. Take an \<open>Upload\<close> on a connected host in which the local file opens and is
  stat'ed, the remote file opens, the copy succeeds and the remote filesystem reports a
  digest. \<open>Upload\<close> returns nil exactly when the reported digest equals the hex SHA-256
  of the bytes streamed through the hasher. Otherwise it returns the upload-failed
  error with the message \<open>checksum mismatch\<close>, which is not an error of the kind
  \<open>ErrChecksumMismatch\<close>.
\<close>

theorem Upload_mismatch_is_upload_failed:
  "checkConnected col c = None \<and> os_Open col src = Inr local
   \<and> file_Stat local = Inr (mode, sz) \<and> Fsys col c = Returns (fs, c1)
   \<and> OpenFile fs dst mode = Inr remote \<and> CopyFromN remote local sz = Inr streamed
   \<and> Sha256 fs dst = Inr remoteSum
   \<longrightarrow>
     returned_error (Upload col c src dst) =
       Returns (if remoteSum = sha256_hex col streamed then None
                else Some (Wrapf ErrUploadFailed ''checksum mismatch'' None))
     \<and> error_is (Wrapf ErrUploadFailed ''checksum mismatch'' None) ErrUploadFailed
     \<and> \<not> error_is (Wrapf ErrUploadFailed ''checksum mismatch'' None) ErrChecksumMismatch"
  using Upload_checksum_step [of col c src local mode sz fs c1 dst remote streamed remoteSum]
  by simp

theorem Upload_mismatch_is_upload_failed_witness:
  "checkConnected example_collaborators example_Connection_connected = None
   \<and> os_Open example_collaborators ''/tmp/f''
       = Inr \<lparr>file_Stat = Inr (420, 5), contents = ''hello''\<rparr>
   \<and> Fsys example_collaborators example_Connection_connected
       = Returns (example_FS, example_Connection_connected\<lparr>fsys := Some example_FS\<rparr>)
   \<and> Sha256 example_FS ''/tmp/x''
       = Inr ''e3b0c44298fc1c149afbf4c8996fb92427ae41e4649b934ca495991b7852b855''
   \<and> sha256_hex example_collaborators ''hello''
       = ''2cf24dba5fb0a30e26e83b2ac5b9e29e1b161e5c1fa7425e73043362938b9824''
   \<and> returned_error
        (Upload example_collaborators example_Connection_connected ''/tmp/f'' ''/tmp/x'')
       = Returns (Some (Wrapf ErrUploadFailed ''checksum mismatch'' None))
   \<and> \<not> error_is (Wrapf ErrUploadFailed ''checksum mismatch'' None) ErrChecksumMismatch"
proof -
  let ?local = "\<lparr>file_Stat = Inr (420, 5), contents = ''hello''\<rparr>"
  let ?remote = "\<lparr>CopyFromN = (\<lambda>local n. Inr (take n (contents local)))\<rparr>"
  let ?sum = "''e3b0c44298fc1c149afbf4c8996fb92427ae41e4649b934ca495991b7852b855''"
  have h1: "checkConnected example_collaborators example_Connection_connected = None"
    by (simp add: checkConnected_def IsConnected_def client_IsConnected_def SSH_IsConnected_def
        example_Connection_connected_def example_SSH_linux_def)
  have h2: "os_Open example_collaborators ''/tmp/f'' = Inr ?local"
    by (simp add: example_collaborators_def)
  have h3: "file_Stat ?local = Inr (420, 5)"
    by simp
  have h4: "Fsys example_collaborators example_Connection_connected
       = Returns (example_FS, example_Connection_connected\<lparr>fsys := Some example_FS\<rparr>)"
    by (simp add: Fsys_def IsWindows_def IsConnected_def client_IsConnected_def
        SSH_IsConnected_def client_IsWindows_def SSH_IsWindows_def
        example_Connection_connected_def example_SSH_linux_def example_SSH_def
        example_collaborators_def Let_def)
  have h5: "OpenFile example_FS ''/tmp/x'' 420 = Inr ?remote"
    by (simp add: example_FS_def)
  have h6: "CopyFromN ?remote ?local 5 = Inr ''hello''"
    by simp
  have h7: "Sha256 example_FS ''/tmp/x'' = Inr ?sum"
    by (simp add: example_FS_def)
  have d: "sha256_hex example_collaborators ''hello''
       = ''2cf24dba5fb0a30e26e83b2ac5b9e29e1b161e5c1fa7425e73043362938b9824''"
    by (simp add: example_collaborators_def)
  have "returned_error
        (Upload example_collaborators example_Connection_connected ''/tmp/f'' ''/tmp/x'')
       = Returns (if ?sum = sha256_hex example_collaborators ''hello'' then None
                  else Some (Wrapf ErrUploadFailed ''checksum mismatch'' None))
     \<and> \<not> error_is (Wrapf ErrUploadFailed ''checksum mismatch'' None) ErrChecksumMismatch"
    using h1 h2 h3 h4 h5 h6 h7
      Upload_mismatch_is_upload_failed [of example_collaborators example_Connection_connected
        "''/tmp/f''" ?local 420 5 example_FS
        "example_Connection_connected\<lparr>fsys := Some example_FS\<rparr>" "''/tmp/x''" ?remote
        "''hello''" ?sum]
    by blast
  then have "returned_error
        (Upload example_collaborators example_Connection_connected ''/tmp/f'' ''/tmp/x'')
       = Returns (Some (Wrapf ErrUploadFailed ''checksum mismatch'' None))
     \<and> \<not> error_is (Wrapf ErrUploadFailed ''checksum mismatch'' None) ErrChecksumMismatch"
    by (simp add: d)
  with h1 h2 h4 h7 d show ?thesis
    by blast
qed

section \<open>Properties of the host-key policy\<close>

lemma permissive_mode_eq:
  "(getConfigAll m c ''StrictHostkeyChecking'' \<noteq> []
     \<and> hd (getConfigAll m c ''StrictHostkeyChecking'') = ''no'') = permissive_mode m c"
  by (cases "getConfigAll m c ''StrictHostkeyChecking''") (simp_all add: permissive_mode_def)

lemma khPath_loop_skip:
  "\<forall>g\<in>set skipped. \<exists>e. expandPath m g = Returns ([], Some e) \<Longrightarrow>
     khPath_loop m (skipped @ rest) = khPath_loop m rest"
  by (induction skipped) auto

lemma khPath_loop_found:
  assumes "\<forall>g\<in>set skipped. \<exists>e. expandPath m g = Returns ([], Some e)"
    and "expandPath m f = Returns (p, None)"
  shows "khPath_loop m (skipped @ f # rest) = Returns p"
  using assms by (simp add: khPath_loop_skip)

lemma khPath_loop_none:
  assumes "\<forall>g\<in>set names. \<exists>e. expandPath m g = Returns ([], Some e)"
  shows "khPath_loop m names = Returns []"
  using khPath_loop_skip [OF assms, of "[]"] by simp

lemma hostkeyCallback_static:
  "HostKey c \<noteq> [] \<Longrightarrow> hostkeyCallback m c = Returns (Inr (StaticKeyCallback (HostKey c)))"
  by (simp add: hostkeyCallback_def)

lemma hostkeyCallback_env:
  assumes "HostKey c = []" and "LookupEnv m ''SSH_KNOWN_HOSTS'' = Some path"
  shows "hostkeyCallback m c =
           Returns (if path = [] then Inr InsecureIgnoreHostKeyCallback
                    else knownhostsCallback m path (permissive_mode m c))"
  using assms
  by (simp add: hostkeyCallback_def KnownHostsPathFromEnv_def Let_def permissive_mode_eq)

lemma hostkeyCallback_config:
  assumes "HostKey c = []" and "LookupEnv m ''SSH_KNOWN_HOSTS'' = None"
    and "shlex_Split (strings_Join (getConfigAll m c ''UserKnownHostsFile'') '' '')
           = (skipped @ f # rest, None)"
    and "\<forall>g\<in>set skipped. \<exists>e. expandPath m g = Returns ([], Some e)"
    and "expandPath m f = Returns (p, None)" and "p \<noteq> []"
  shows "hostkeyCallback m c = Returns (knownhostsCallback m p (permissive_mode m c))"
proof -
  have "khPath_loop m (skipped @ f # rest) = Returns p"
    using assms(4,5) by (rule khPath_loop_found)
  with assms(1,2,3,6) show ?thesis
    by (simp add: hostkeyCallback_def KnownHostsPathFromEnv_def Let_def permissive_mode_eq)
qed

lemma hostkeyCallback_default:
  assumes "HostKey c = []" and "LookupEnv m ''SSH_KNOWN_HOSTS'' = None"
    and "shlex_Split (strings_Join (getConfigAll m c ''UserKnownHostsFile'') '' '') = (names, err)"
    and "err = None \<Longrightarrow> \<forall>g\<in>set names. \<exists>e. expandPath m g = Returns ([], Some e)"
    and "expandPath m (DefaultKnownHostsPath m) = Returns (d, None)"
  shows "hostkeyCallback m c = Returns (knownhostsCallback m d (permissive_mode m c))"
proof (cases err)
  case None
  with assms(4) have "khPath_loop m names = Returns []"
    by (simp add: khPath_loop_none)
  with None assms(1,2,3,5) show ?thesis
    by (simp add: hostkeyCallback_def KnownHostsPathFromEnv_def Let_def permissive_mode_eq)
next
  case (Some e)
  with assms(1,2,3,5) show ?thesis
    by (simp add: hostkeyCallback_def KnownHostsPathFromEnv_def Let_def permissive_mode_eq)
qed

text \<open>
  C5. The callback \<open>hostkeyCallback\<close> selects: (1) with a literal \<open>HostKey\<close>, the static
  callback for that key; (2) otherwise, with \<open>SSH_KNOWN_HOSTS\<close> present, the
  insecure-ignore callback when its value is empty and the known-hosts-file callback on
  that path when it is not; (3) otherwise the known-hosts-file callback on the expansion
  of the first file name of \<open>UserKnownHostsFile\<close> that \<open>expandPath\<close> expands (the names
  before it fail to expand; the expansion is not empty); (4) otherwise, when no file
  name expands or the value of \<open>UserKnownHostsFile\<close> does not split, the
  known-hosts-file callback on the expanded default path. The known-hosts-file
  callbacks are permissive when \<open>StrictHostkeyChecking\<close> is \<open>no\<close>.
\<close>

theorem hostkeyCallback_precedence:
  "(HostKey c \<noteq> [] \<longrightarrow>
      hostkeyCallback m c = Returns (Inr (StaticKeyCallback (HostKey c))))
   \<and> (HostKey c = [] \<and> LookupEnv m ''SSH_KNOWN_HOSTS'' = Some [] \<longrightarrow>
      hostkeyCallback m c = Returns (Inr InsecureIgnoreHostKeyCallback))
   \<and> (HostKey c = [] \<and> LookupEnv m ''SSH_KNOWN_HOSTS'' = Some path \<and> path \<noteq> [] \<longrightarrow>
      hostkeyCallback m c = Returns (knownhostsCallback m path (permissive_mode m c)))
   \<and> (HostKey c = [] \<and> LookupEnv m ''SSH_KNOWN_HOSTS'' = None
      \<and> shlex_Split (strings_Join (getConfigAll m c ''UserKnownHostsFile'') '' '')
          = (skipped @ f # rest, None)
      \<and> (\<forall>g\<in>set skipped. \<exists>e. expandPath m g = Returns ([], Some e))
      \<and> expandPath m f = Returns (p, None) \<and> p \<noteq> [] \<longrightarrow>
      hostkeyCallback m c = Returns (knownhostsCallback m p (permissive_mode m c)))
   \<and> (HostKey c = [] \<and> LookupEnv m ''SSH_KNOWN_HOSTS'' = None
      \<and> shlex_Split (strings_Join (getConfigAll m c ''UserKnownHostsFile'') '' '')
          = (names, None)
      \<and> (\<forall>g\<in>set names. \<exists>e. expandPath m g = Returns ([], Some e))
      \<and> expandPath m (DefaultKnownHostsPath m) = Returns (d, None) \<longrightarrow>
      hostkeyCallback m c = Returns (knownhostsCallback m d (permissive_mode m c)))
   \<and> (HostKey c = [] \<and> LookupEnv m ''SSH_KNOWN_HOSTS'' = None
      \<and> shlex_Split (strings_Join (getConfigAll m c ''UserKnownHostsFile'') '' '')
          = (names, Some bad)
      \<and> expandPath m (DefaultKnownHostsPath m) = Returns (d, None) \<longrightarrow>
      hostkeyCallback m c = Returns (knownhostsCallback m d (permissive_mode m c)))"
proof (intro conjI impI)
  assume "HostKey c \<noteq> []"
  then show "hostkeyCallback m c = Returns (Inr (StaticKeyCallback (HostKey c)))"
    by (rule hostkeyCallback_static)
next
  assume "HostKey c = [] \<and> LookupEnv m ''SSH_KNOWN_HOSTS'' = Some []"
  then show "hostkeyCallback m c = Returns (Inr InsecureIgnoreHostKeyCallback)"
    using hostkeyCallback_env [of c m "[]"] by simp
next
  assume "HostKey c = [] \<and> LookupEnv m ''SSH_KNOWN_HOSTS'' = Some path \<and> path \<noteq> []"
  then show "hostkeyCallback m c = Returns (knownhostsCallback m path (permissive_mode m c))"
    using hostkeyCallback_env [of c m path] by simp
next
  assume "HostKey c = [] \<and> LookupEnv m ''SSH_KNOWN_HOSTS'' = None
      \<and> shlex_Split (strings_Join (getConfigAll m c ''UserKnownHostsFile'') '' '')
          = (skipped @ f # rest, None)
      \<and> (\<forall>g\<in>set skipped. \<exists>e. expandPath m g = Returns ([], Some e))
      \<and> expandPath m f = Returns (p, None) \<and> p \<noteq> []"
  then show "hostkeyCallback m c = Returns (knownhostsCallback m p (permissive_mode m c))"
    using hostkeyCallback_config by blast
next
  assume "HostKey c = [] \<and> LookupEnv m ''SSH_KNOWN_HOSTS'' = None
      \<and> shlex_Split (strings_Join (getConfigAll m c ''UserKnownHostsFile'') '' '')
          = (names, None)
      \<and> (\<forall>g\<in>set names. \<exists>e. expandPath m g = Returns ([], Some e))
      \<and> expandPath m (DefaultKnownHostsPath m) = Returns (d, None)"
  then show "hostkeyCallback m c = Returns (knownhostsCallback m d (permissive_mode m c))"
    using hostkeyCallback_default [of c m names None d] by blast
next
  assume "HostKey c = [] \<and> LookupEnv m ''SSH_KNOWN_HOSTS'' = None
      \<and> shlex_Split (strings_Join (getConfigAll m c ''UserKnownHostsFile'') '' '')
          = (names, Some bad)
      \<and> expandPath m (DefaultKnownHostsPath m) = Returns (d, None)"
  then show "hostkeyCallback m c = Returns (knownhostsCallback m d (permissive_mode m c))"
    using hostkeyCallback_default [of c m names "Some bad" d] by simp
qed


theorem hostkeyCallback_precedence_witness:
  "HostKey (example_SSH\<lparr>HostKey := ''ssh-ed25519 AAAA''\<rparr>) \<noteq> []
   \<and> hostkeyCallback example_machine (example_SSH\<lparr>HostKey := ''ssh-ed25519 AAAA''\<rparr>)
       = Returns (Inr (StaticKeyCallback ''ssh-ed25519 AAAA''))
   \<and> HostKey example_SSH = []
   \<and> LookupEnv example_machine_env_empty ''SSH_KNOWN_HOSTS'' = Some []
   \<and> hostkeyCallback example_machine_env_empty example_SSH
       = Returns (Inr InsecureIgnoreHostKeyCallback)
   \<and> LookupEnv example_machine_env_path ''SSH_KNOWN_HOSTS'' = Some ''/tmp/kh''
   \<and> hostkeyCallback example_machine_env_path example_SSH
       = Returns (Inr (KnownHostsFileCallback ''/tmp/kh'' False))
   \<and> LookupEnv example_machine_config ''SSH_KNOWN_HOSTS'' = None
   \<and> shlex_Split (strings_Join
         (getConfigAll example_machine_config example_SSH ''UserKnownHostsFile'') '' '')
       = ([''~bob/known_hosts''] @ ''~/.ssh/kh'' # [], None)
   \<and> expandPath example_machine_config ''~/.ssh/kh'' = Returns (''/home/u/.ssh/kh'', None)
   \<and> hostkeyCallback example_machine_config example_SSH
       = Returns (Inr (KnownHostsFileCallback ''/home/u/.ssh/kh'' True))
   \<and> LookupEnv example_machine ''SSH_KNOWN_HOSTS'' = None
   \<and> shlex_Split (strings_Join
         (getConfigAll example_machine example_SSH ''UserKnownHostsFile'') '' '') = ([], None)
   \<and> expandPath example_machine (DefaultKnownHostsPath example_machine)
       = Returns (''/home/u/.ssh/known_hosts'', None)
   \<and> hostkeyCallback example_machine example_SSH
       = Returns (Inr (KnownHostsFileCallback ''/home/u/.ssh/known_hosts'' False))
   \<and> LookupEnv example_machine_bad_quote ''SSH_KNOWN_HOSTS'' = None
   \<and> shlex_Split (strings_Join
         (getConfigAll example_machine_bad_quote example_SSH ''UserKnownHostsFile'') '' '')
       = ([], Some (External ''EOF found when expecting closing quote''))
   \<and> expandPath example_machine_bad_quote (DefaultKnownHostsPath example_machine_bad_quote)
       = Returns (''/home/u/.ssh/known_hosts'', None)
   \<and> hostkeyCallback example_machine_bad_quote example_SSH
       = Returns (Inr (KnownHostsFileCallback ''/home/u/.ssh/known_hosts'' False))"
proof -
  let ?keyed = "example_SSH\<lparr>HostKey := ''ssh-ed25519 AAAA''\<rparr>"
  have k1: "HostKey ?keyed \<noteq> []"
    by simp
  have r1: "hostkeyCallback example_machine ?keyed = Returns (Inr (StaticKeyCallback (HostKey ?keyed)))"
    using k1 hostkeyCallback_precedence [of ?keyed example_machine]
    by blast
  then have r1': "hostkeyCallback example_machine ?keyed
       = Returns (Inr (StaticKeyCallback ''ssh-ed25519 AAAA''))"
    by simp
  have k0: "HostKey example_SSH = []"
    by (simp add: example_SSH_def)
  have e2: "LookupEnv example_machine_env_empty ''SSH_KNOWN_HOSTS'' = Some []"
    by (simp add: example_machine_env_empty_def)
  have r2: "hostkeyCallback example_machine_env_empty example_SSH
       = Returns (Inr InsecureIgnoreHostKeyCallback)"
    using k0 e2 hostkeyCallback_precedence [of example_SSH example_machine_env_empty]
    by blast
  have e3: "LookupEnv example_machine_env_path ''SSH_KNOWN_HOSTS'' = Some ''/tmp/kh''"
    by (simp add: example_machine_env_path_def)
  have n3: "''/tmp/kh'' \<noteq> []"
    by simp
  have "hostkeyCallback example_machine_env_path example_SSH
       = Returns (knownhostsCallback example_machine_env_path ''/tmp/kh''
                    (permissive_mode example_machine_env_path example_SSH))"
    using k0 e3 n3
      hostkeyCallback_precedence [of example_SSH example_machine_env_path "''/tmp/kh''"]
    by blast
  then have r3: "hostkeyCallback example_machine_env_path example_SSH
       = Returns (Inr (KnownHostsFileCallback ''/tmp/kh'' False))"
    by (simp add: knownhostsCallback_def permissive_mode_def getConfigAll_def
        example_machine_env_path_def example_machine_def)
  have e4: "LookupEnv example_machine_config ''SSH_KNOWN_HOSTS'' = None"
    by (simp add: example_machine_config_def example_machine_def)
  have s4: "shlex_Split (strings_Join
         (getConfigAll example_machine_config example_SSH ''UserKnownHostsFile'') '' '')
       = ([''~bob/known_hosts''] @ ''~/.ssh/kh'' # [], None)"
    by (simp add: getConfigAll_def example_machine_config_def example_machine_def
        shlex_Split_def ClassifyRune_def emit_token_def)
  have b4: "\<forall>g\<in>set [''~bob/known_hosts'']. \<exists>e. expandPath example_machine_config g = Returns ([], Some e)"
    by (simp add: expandPath_def)
  have x4: "expandPath example_machine_config ''~/.ssh/kh'' = Returns (''/home/u/.ssh/kh'', None)"
    by (simp add: expandPath_def homeDir_def example_machine_config_def example_machine_def)
  have n4: "''/home/u/.ssh/kh'' \<noteq> []"
    by simp
  have "hostkeyCallback example_machine_config example_SSH
       = Returns (knownhostsCallback example_machine_config ''/home/u/.ssh/kh''
                    (permissive_mode example_machine_config example_SSH))"
    using k0 e4 s4 b4 x4 n4
      hostkeyCallback_precedence [of example_SSH example_machine_config _
        "[''~bob/known_hosts'']" "''~/.ssh/kh''" "[]" "''/home/u/.ssh/kh''"]
    by blast
  then have r4: "hostkeyCallback example_machine_config example_SSH
       = Returns (Inr (KnownHostsFileCallback ''/home/u/.ssh/kh'' True))"
    by (simp add: knownhostsCallback_def permissive_mode_def getConfigAll_def
        example_machine_config_def example_machine_def)
  have e5: "LookupEnv example_machine ''SSH_KNOWN_HOSTS'' = None"
    by (simp add: example_machine_def)
  have s5: "shlex_Split (strings_Join
         (getConfigAll example_machine example_SSH ''UserKnownHostsFile'') '' '') = ([], None)"
    by (simp add: getConfigAll_def example_machine_def shlex_Split_def)
  have b5: "\<forall>g\<in>set []. \<exists>e. expandPath example_machine g = Returns ([], Some e)"
    by simp
  have x5: "expandPath example_machine (DefaultKnownHostsPath example_machine)
       = Returns (''/home/u/.ssh/known_hosts'', None)"
    by (simp add: expandPath_def homeDir_def example_machine_def)
  have "hostkeyCallback example_machine example_SSH
       = Returns (knownhostsCallback example_machine ''/home/u/.ssh/known_hosts''
                    (permissive_mode example_machine example_SSH))"
    using k0 e5 s5 b5 x5
      hostkeyCallback_precedence [of example_SSH example_machine _ _ _ _ _ "[]"
        "''/home/u/.ssh/known_hosts''"]
    by blast
  then have r5: "hostkeyCallback example_machine example_SSH
       = Returns (Inr (KnownHostsFileCallback ''/home/u/.ssh/known_hosts'' False))"
    by (simp add: knownhostsCallback_def permissive_mode_def getConfigAll_def example_machine_def)
  have e6: "LookupEnv example_machine_bad_quote ''SSH_KNOWN_HOSTS'' = None"
    by (simp add: example_machine_bad_quote_def example_machine_def)
  have s6: "shlex_Split (strings_Join
         (getConfigAll example_machine_bad_quote example_SSH ''UserKnownHostsFile'') '' '')
       = ([], Some (External ''EOF found when expecting closing quote''))"
    by (simp add: getConfigAll_def example_machine_bad_quote_def example_machine_def
        shlex_Split_def ClassifyRune_def emit_token_def)
  have x6: "expandPath example_machine_bad_quote (DefaultKnownHostsPath example_machine_bad_quote)
       = Returns (''/home/u/.ssh/known_hosts'', None)"
    by (simp add: expandPath_def homeDir_def example_machine_bad_quote_def example_machine_def)
  have "hostkeyCallback example_machine_bad_quote example_SSH
       = Returns (knownhostsCallback example_machine_bad_quote ''/home/u/.ssh/known_hosts''
                    (permissive_mode example_machine_bad_quote example_SSH))"
    using k0 e6 s6 x6
      hostkeyCallback_precedence [of example_SSH example_machine_bad_quote _ _ _ _ _ "[]"
        "''/home/u/.ssh/known_hosts''" "External ''EOF found when expecting closing quote''"]
    by blast
  then have r6: "hostkeyCallback example_machine_bad_quote example_SSH
       = Returns (Inr (KnownHostsFileCallback ''/home/u/.ssh/known_hosts'' False))"
    by (simp add: knownhostsCallback_def permissive_mode_def getConfigAll_def
        example_machine_bad_quote_def example_machine_def)
  from k1 r1' k0 e2 r2 e3 r3 e4 s4 x4 r4 e5 s5 x5 r5 e6 s6 x6 r6 show ?thesis
    by blast
qed

end
